theory Spec2Isabelle
  imports Main "HOL-Library.AList"
begin

section \<open>Python values: errors and dictionaries\<close>

text \<open>
  The two exceptions the code of \<^verbatim>\<open>exams.py\<close> can raise by itself: a missing
  dictionary key, and a method call on \<^verbatim>\<open>None\<close>.
\<close>

datatype error = KeyError | AttributeError

text \<open>
  A Python \<^verbatim>\<open>dict\<close> keeps its keys in insertion order; storing under an existing
  key keeps the key's position. That is what \<open>AList.update\<close> does on an
  association list, so a dict is modelled as an association list.
\<close>

type_synonym ('k, 'v) dict = "('k \<times> 'v) list"

definition dict_keys :: "('k, 'v) dict \<Rightarrow> 'k list" where
  "dict_keys d = map fst d"

definition dict_values :: "('k, 'v) dict \<Rightarrow> 'v list" where
  "dict_values d = map snd d"

text \<open>\<^verbatim>\<open>d[k]\<close>: raises \<^verbatim>\<open>KeyError\<close> on a missing key.\<close>

definition getitem :: "('k, 'v) dict \<Rightarrow> 'k \<Rightarrow> error + 'v" where
  "getitem d k = (case map_of d k of None \<Rightarrow> Inl KeyError | Some v \<Rightarrow> Inr v)"

text \<open>\<^verbatim>\<open>d.pop(k)\<close>: the value and the dict without the key, or \<^verbatim>\<open>KeyError\<close>.\<close>

definition dict_pop :: "('k, 'v) dict \<Rightarrow> 'k \<Rightarrow> error + ('v \<times> ('k, 'v) dict)" where
  "dict_pop d k =
     (case map_of d k of None \<Rightarrow> Inl KeyError | Some v \<Rightarrow> Inr (v, AList.delete k d))"

text \<open>\<^verbatim>\<open>dict(zip(ks, vs))\<close>: a later pair overwrites an earlier one with the same key.\<close>

definition dict_zip :: "'k list \<Rightarrow> 'v list \<Rightarrow> ('k, 'v) dict" where
  "dict_zip ks vs = fold (\<lambda>(k, v) d. AList.update k v d) (zip ks vs) []"

text \<open>\<^verbatim>\<open>{k: f(k) for k in ks}\<close>.\<close>

definition dict_comp :: "'k list \<Rightarrow> ('k \<Rightarrow> 'v) \<Rightarrow> ('k, 'v) dict" where
  "dict_comp ks f = fold (\<lambda>k d. AList.update k (f k) d) ks []"

section \<open>The data of the encoding\<close>

text \<open>
  One row of the subject table, with the five columns that \<^verbatim>\<open>__init__\<close> reads:
  \<^verbatim>\<open>Subject\<close>, \<^verbatim>\<open>Semester\<close>, \<^verbatim>\<open>Professor\<close>, \<^verbatim>\<open>Difficult (TRUE/FALSE)\<close> and
  \<^verbatim>\<open>Lab (TRUE/FALSE)\<close>. Reading the file itself is not modelled.
\<close>

record subject_row =
  Subject :: string
  Semester :: int
  Professor :: string
  Difficult :: bool
  Lab :: bool

text \<open>A domain value is a Python tuple \<^verbatim>\<open>(day, slot)\<close> of two integers.\<close>

type_synonym val = "int \<times> int"

text \<open>
  The entries of \<^verbatim>\<open>var_to_cons\<close> are the five bound methods; a constructor stands for
  a reference to each.
\<close>

datatype constraint = SlotC | LabC | SemesterC | ProfessorC | DifficultyC

text \<open>The attributes that \<^verbatim>\<open>__init__\<close> sets on the \<^verbatim>\<open>Exams\<close> object.\<close>

record Exams =
  semesters :: "(string, int) dict"
  professors :: "(string, string) dict"
  difficulties :: "(string, bool) dict"
  variables :: "string list"
  laboratories :: "(string, string) dict"
  domains :: "(string, val list) dict"
  neighbors :: "(string, string list) dict"
  var_to_cons :: "(string, constraint list) dict"

section \<open>The constructor\<close>

text \<open>
  The body of \<^verbatim>\<open>for subject in subjects\<close> (lines 33 to 42). The right-hand side
  \<^verbatim>\<open>pop(subject)\<close> is evaluated before the store under \<^verbatim>\<open>theory\<close>.
\<close>

definition init_subject :: "(string, bool) dict \<Rightarrow> string \<Rightarrow> Exams \<Rightarrow> error + Exams" where
  "init_subject check_lab subject self =
     (case getitem check_lab subject of
        Inl e \<Rightarrow> Inl e
      | Inr has_lab \<Rightarrow>
          if has_lab then
            (let theory = subject @ '' Theory'';
                 lab = subject @ '' Lab'';
                 self1 = self\<lparr>variables := variables self @ [theory, lab]\<rparr>;
                 self2 = self1\<lparr>laboratories := AList.update lab theory (laboratories self1)\<rparr>
             in case dict_pop (semesters self2) subject of
                  Inl e \<Rightarrow> Inl e
                | Inr (s, sems) \<Rightarrow>
                    (case dict_pop (professors self2) subject of
                       Inl e \<Rightarrow> Inl e
                     | Inr (p, profs) \<Rightarrow>
                         (case dict_pop (difficulties self2) subject of
                            Inl e \<Rightarrow> Inl e
                          | Inr (d, diffs) \<Rightarrow>
                              Inr (self2\<lparr>semesters := AList.update theory s sems,
                                         professors := AList.update theory p profs,
                                         difficulties := AList.update theory d diffs\<rparr>))))
          else Inr (self\<lparr>variables := variables self @ [subject]\<rparr>))"

fun init_subjects :: "(string, bool) dict \<Rightarrow> string list \<Rightarrow> Exams \<Rightarrow> error + Exams" where
  "init_subjects check_lab [] self = Inr self"
| "init_subjects check_lab (subject # subjects) self =
     (case init_subject check_lab subject self of
        Inl e \<Rightarrow> Inl e
      | Inr self' \<Rightarrow> init_subjects check_lab subjects self')"

text \<open>\<^verbatim>\<open>[(i, j) for i in range(21) for j in range(3)]\<close>\<close>

definition full_domain :: "val list" where
  "full_domain = [(i, j). i \<leftarrow> [0..20], j \<leftarrow> [0..2]]"

text \<open>\<^verbatim>\<open>self.var_to_cons[var].append(c)\<close>\<close>

definition cons_append :: "string \<Rightarrow> constraint list \<Rightarrow> Exams \<Rightarrow> error + Exams" where
  "cons_append var cs self =
     (case getitem (var_to_cons self) var of
        Inl e \<Rightarrow> Inl e
      | Inr old \<Rightarrow> Inr (self\<lparr>var_to_cons := AList.update var (old @ cs) (var_to_cons self)\<rparr>))"

text \<open>The body of \<^verbatim>\<open>for var in self.variables\<close> (lines 49 to 54).\<close>

definition init_var_cons :: "string \<Rightarrow> Exams \<Rightarrow> error + Exams" where
  "init_var_cons var self =
     (case (if var \<in> set (dict_keys (laboratories self))
               \<or> var \<in> set (dict_values (laboratories self))
            then cons_append var [LabC] self else Inr self) of
        Inl e \<Rightarrow> Inl e
      | Inr self1 \<Rightarrow>
          if var \<notin> set (dict_keys (laboratories self1)) then
            (case cons_append var [SemesterC, ProfessorC] self1 of
               Inl e \<Rightarrow> Inl e
             | Inr self2 \<Rightarrow>
                 (case getitem (difficulties self2) var of
                    Inl e \<Rightarrow> Inl e
                  | Inr d \<Rightarrow> if d then cons_append var [DifficultyC] self2 else Inr self2))
          else Inr self1)"

fun init_vars_cons :: "string list \<Rightarrow> Exams \<Rightarrow> error + Exams" where
  "init_vars_cons [] self = Inr self"
| "init_vars_cons (var # vars) self =
     (case init_var_cons var self of
        Inl e \<Rightarrow> Inl e
      | Inr self' \<Rightarrow> init_vars_cons vars self')"

text \<open>
  \<^verbatim>\<open>Exams.__init__\<close>, from the rows of the table to the object, or the exception that
  ends it. The closing call of the base class's constructor hands the same five values
  to the solving engine and is left out.
\<close>

definition Exams_init :: "subject_row list \<Rightarrow> error + Exams" where
  "Exams_init data =
     (let subjects = map Subject data;
          check_lab = dict_zip subjects (map Lab data);
          self0 = \<lparr>semesters = dict_zip subjects (map Semester data),
                   professors = dict_zip subjects (map Professor data),
                   difficulties = dict_zip subjects (map Difficult data),
                   variables = [],
                   laboratories = [],
                   domains = [],
                   neighbors = [],
                   var_to_cons = []\<rparr>
      in case init_subjects check_lab subjects self0 of
           Inl e \<Rightarrow> Inl e
         | Inr self1 \<Rightarrow>
             (let vs = variables self1;
                  self2 = self1\<lparr>domains := dict_comp vs (\<lambda>var. full_domain),
                                neighbors := dict_comp vs (\<lambda>var. filter (\<lambda>sub. sub \<noteq> var) vs),
                                var_to_cons := dict_comp vs (\<lambda>var. [SlotC])\<rparr>
              in init_vars_cons vs self2))"

section \<open>The five constraint predicates\<close>

definition slot_constraint :: "Exams \<Rightarrow> string \<Rightarrow> val \<Rightarrow> string \<Rightarrow> val \<Rightarrow> bool" where
  "slot_constraint self A a B b = (a \<noteq> b)"

text \<open>\<^verbatim>\<open>X in self.laboratories and self.laboratories[X] == Y\<close>, with the short circuit.\<close>

definition lab_of :: "Exams \<Rightarrow> string \<Rightarrow> string \<Rightarrow> error + bool" where
  "lab_of self X Y =
     (if X \<in> set (dict_keys (laboratories self))
      then (case getitem (laboratories self) X of Inl e \<Rightarrow> Inl e | Inr t \<Rightarrow> Inr (t = Y))
      else Inr False)"

definition lab_constraint :: "Exams \<Rightarrow> string \<Rightarrow> val \<Rightarrow> string \<Rightarrow> val \<Rightarrow> error + bool" where
  "lab_constraint self A a B b =
     (case lab_of self A B of
        Inl e \<Rightarrow> Inl e
      | Inr True \<Rightarrow> Inr (fst a = fst b \<and> snd a = snd b + 1)
      | Inr False \<Rightarrow>
          (case lab_of self B A of
             Inl e \<Rightarrow> Inl e
           | Inr True \<Rightarrow> Inr (fst b = fst a \<and> snd b = snd a + 1)
           | Inr False \<Rightarrow> Inr True))"

definition semester_constraint :: "Exams \<Rightarrow> string \<Rightarrow> val \<Rightarrow> string \<Rightarrow> val \<Rightarrow> error + bool" where
  "semester_constraint self A a B b =
     (case getitem (semesters self) A of
        Inl e \<Rightarrow> Inl e
      | Inr sa \<Rightarrow>
          (case getitem (semesters self) B of
             Inl e \<Rightarrow> Inl e
           | Inr sb \<Rightarrow> Inr (sa \<noteq> sb \<or> fst a \<noteq> fst b)))"

definition professor_constraint :: "Exams \<Rightarrow> string \<Rightarrow> val \<Rightarrow> string \<Rightarrow> val \<Rightarrow> error + bool" where
  "professor_constraint self A a B b =
     (case getitem (professors self) A of
        Inl e \<Rightarrow> Inl e
      | Inr pa \<Rightarrow>
          (case getitem (professors self) B of
             Inl e \<Rightarrow> Inl e
           | Inr pb \<Rightarrow> Inr (pa \<noteq> pb \<or> fst a \<noteq> fst b)))"

definition difficulty_constraint :: "Exams \<Rightarrow> string \<Rightarrow> val \<Rightarrow> string \<Rightarrow> val \<Rightarrow> bool" where
  "difficulty_constraint self A a B b = (\<bar>fst a - fst b\<bar> \<ge> 2)"

text \<open>Calling the method that an entry of \<^verbatim>\<open>var_to_cons\<close> refers to.\<close>

fun call_constraint :: "Exams \<Rightarrow> constraint \<Rightarrow> string \<Rightarrow> val \<Rightarrow> string \<Rightarrow> val \<Rightarrow> error + bool" where
  "call_constraint self SlotC A a B b = Inr (slot_constraint self A a B b)"
| "call_constraint self LabC A a B b = lab_constraint self A a B b"
| "call_constraint self SemesterC A a B b = semester_constraint self A a B b"
| "call_constraint self ProfessorC A a B b = professor_constraint self A a B b"
| "call_constraint self DifficultyC A a B b = Inr (difficulty_constraint self A a B b)"

section \<open>Invariants of the constructor\<close>

text \<open>
  Every entry of \<^verbatim>\<open>laboratories\<close> pairs a name ending in \<^verbatim>\<open>Lab\<close> with the same
  name ending in \<^verbatim>\<open>Theory\<close>.
\<close>

definition labs_wf :: "(string, string) dict \<Rightarrow> bool" where
  "labs_wf labs \<longleftrightarrow> (\<forall>(l, t) \<in> set labs. \<exists>n. l = n @ '' Lab'' \<and> t = n @ '' Theory'')"

text \<open>
  What holds of the object after any number of rounds of the first loop: the lab
  relation has the shape above, its keys are variables, and the three attribute dicts
  have the same keys.
\<close>

definition build_inv :: "Exams \<Rightarrow> bool" where
  "build_inv self \<longleftrightarrow>
     labs_wf (laboratories self)
     \<and> fst ` set (laboratories self) \<subseteq> set (variables self)
     \<and> fst ` set (professors self) = fst ` set (semesters self)
     \<and> fst ` set (difficulties self) = fst ` set (semesters self)"

text \<open>
  The predicates that one round of the second loop appends to the list of \<open>var\<close>:
  the three tests of lines 49, 51 and 53, in their order.
\<close>

definition cons_added :: "Exams \<Rightarrow> string \<Rightarrow> constraint list" where
  "cons_added self var =
     (if var \<in> set (dict_keys (laboratories self)) \<or> var \<in> set (dict_values (laboratories self))
      then [LabC] else [])
     @ (if var \<notin> set (dict_keys (laboratories self))
        then [SemesterC, ProfessorC]
             @ (if map_of (difficulties self) var = Some True then [DifficultyC] else [])
        else [])"

section \<open>A small catalogue\<close>

text \<open>
  One subject with a lab and one plain subject, and the object that the constructor
  builds from them.
\<close>

definition scenario :: "subject_row list" where
  "scenario =
     [\<lparr>Subject = ''Algorithms'', Semester = 3, Professor = ''A'', Difficult = True, Lab = True\<rparr>,
      \<lparr>Subject = ''History'', Semester = 3, Professor = ''B'', Difficult = False, Lab = False\<rparr>]"

definition scenario_exams :: Exams where
  "scenario_exams =
     \<lparr>semesters = [(''History'', 3), (''Algorithms Theory'', 3)],
      professors = [(''History'', ''B''), (''Algorithms Theory'', ''A'')],
      difficulties = [(''History'', False), (''Algorithms Theory'', True)],
      variables = [''Algorithms Theory'', ''Algorithms Lab'', ''History''],
      laboratories = [(''Algorithms Lab'', ''Algorithms Theory'')],
      domains = [(''Algorithms Theory'', full_domain), (''Algorithms Lab'', full_domain),
                 (''History'', full_domain)],
      neighbors = [(''Algorithms Theory'', [''Algorithms Lab'', ''History'']),
                   (''Algorithms Lab'', [''Algorithms Theory'', ''History'']),
                   (''History'', [''Algorithms Theory'', ''Algorithms Lab''])],
      var_to_cons = [(''Algorithms Theory'', [SlotC, LabC, SemesterC, ProfessorC, DifficultyC]),
                     (''Algorithms Lab'', [SlotC, LabC]),
                     (''History'', [SlotC, SemesterC, ProfessorC])]\<rparr>"

section \<open>What the specification expects of the builder\<close>

text \<open>
  The variables that the specification lets one subject record yield: its own name, or
  its Theory name followed by its Lab name.
\<close>

definition spec_row_variables :: "subject_row \<Rightarrow> string list" where
  "spec_row_variables r =
     (if Lab r then [Subject r @ '' Theory'', Subject r @ '' Lab''] else [Subject r])"

text \<open>The variable name under which the specification keys the attributes of a record.\<close>

definition spec_attr_key :: "subject_row \<Rightarrow> string" where
  "spec_attr_key r = (if Lab r then Subject r @ '' Theory'' else Subject r)"

text \<open>
  All names that a table brings into play: the subject names, and the Theory and Lab
  names of the subjects with a lab. A table is free of collisions when this list has no
  repetition.
\<close>

definition all_names :: "subject_row list \<Rightarrow> string list" where
  "all_names rows =
     map Subject rows
     @ concat (map (\<lambda>r. if Lab r then [Subject r @ '' Theory'', Subject r @ '' Lab''] else [])
                 rows)"

text \<open>
  The state of the object in the first loop, when the rows \<open>p\<close> are done and the rows
  \<open>s\<close> are still to come, on a table free of collisions.
\<close>

definition rows_inv :: "subject_row list \<Rightarrow> subject_row list \<Rightarrow> Exams \<Rightarrow> bool" where
  "rows_inv p s st \<longleftrightarrow>
     variables st = concat (map spec_row_variables p)
     \<and> laboratories st = map (\<lambda>r. (Subject r @ '' Lab'', Subject r @ '' Theory'')) (filter Lab p)
     \<and> map_of (semesters st) = map_of (map (\<lambda>r. (spec_attr_key r, Semester r)) p
                                       @ map (\<lambda>r. (Subject r, Semester r)) s)
     \<and> map_of (professors st) = map_of (map (\<lambda>r. (spec_attr_key r, Professor r)) p
                                        @ map (\<lambda>r. (Subject r, Professor r)) s)
     \<and> map_of (difficulties st) = map_of (map (\<lambda>r. (spec_attr_key r, Difficult r)) p
                                          @ map (\<lambda>r. (Subject r, Difficult r)) s)"

section \<open>Tables with colliding names\<close>

text \<open>Two different records with the same subject name, neither with a lab.\<close>

definition two_histories :: "subject_row list" where
  "two_histories =
     [\<lparr>Subject = ''History'', Semester = 3, Professor = ''B'', Difficult = False, Lab = False\<rparr>,
      \<lparr>Subject = ''History'', Semester = 5, Professor = ''C'', Difficult = True, Lab = False\<rparr>]"

text \<open>Two records with the same subject name, the first with a lab and the second without.\<close>

definition mixed_flags :: "subject_row list" where
  "mixed_flags =
     [\<lparr>Subject = ''Algorithms'', Semester = 3, Professor = ''A'', Difficult = True, Lab = True\<rparr>,
      \<lparr>Subject = ''Algorithms'', Semester = 3, Professor = ''A'', Difficult = True, Lab = False\<rparr>]"

text \<open>A plain subject whose name is the Lab name that another subject generates.\<close>

definition lab_named_subject :: "subject_row list" where
  "lab_named_subject =
     [\<lparr>Subject = ''Algorithms Lab'', Semester = 1, Professor = ''C'', Difficult = False, Lab = False\<rparr>,
      \<lparr>Subject = ''Algorithms'', Semester = 3, Professor = ''A'', Difficult = True, Lab = True\<rparr>]"

section \<open>The calendar and the solving loop\<close>



definition nl :: string where
  "nl = [CHR 0x0A]"





















section \<open>Facts about dictionaries and the constructor\<close>

lemma getitem_Inr_iff: "getitem d k = Inr v \<longleftrightarrow> map_of d k = Some v"
  by (simp add: getitem_def split: option.splits)

lemma getitem_Inl_iff: "getitem d k = Inl e \<longleftrightarrow> e = KeyError \<and> map_of d k = None"
  by (auto simp: getitem_def split: option.splits)

lemma dict_pop_Inr_iff:
  "dict_pop d k = Inr (v, d') \<longleftrightarrow> map_of d k = Some v \<and> d' = AList.delete k d"
  by (auto simp: dict_pop_def split: option.splits)

lemma keys_dict_zip_aux:
  "fst ` set (fold (\<lambda>(k, v) d. AList.update k v d) ps d0) = fst ` set ps \<union> fst ` set d0"
proof (induction ps arbitrary: d0)
  case Nil
  show ?case by simp
next
  case (Cons p ps)
  have "fst ` set (AList.update (fst p) (snd p) d0) = {fst p} \<union> fst ` set d0"
    by (rule dom_update)
  with Cons show ?case by (simp add: case_prod_beta)
qed

lemma keys_dict_zip:
  "length ks = length vs \<Longrightarrow> fst ` set (dict_zip ks vs) = set ks"
proof -
  assume "length ks = length vs"
  then have "fst ` set (zip ks vs) = set ks"
    by (metis map_fst_zip set_map)
  then show ?thesis by (simp add: dict_zip_def keys_dict_zip_aux)
qed

lemma map_of_dict_comp_aux:
  "map_of (fold (\<lambda>k d. AList.update k (f k) d) ks d0) x =
     (if x \<in> set ks then Some (f x) else map_of d0 x)"
  by (induction ks arbitrary: d0) (auto simp: update_conv')

lemma map_of_dict_comp:
  "map_of (dict_comp ks f) x = (if x \<in> set ks then Some (f x) else None)"
  by (simp add: dict_comp_def map_of_dict_comp_aux)

lemma keys_delete: "fst ` set (AList.delete k al) = fst ` set al - {k}"
  by (induction al) auto

lemma set_update_subset: "set (AList.update k v al) \<subseteq> insert (k, v) (set al)"
  by (induction al) auto

lemma init_subject_cases:
  assumes "init_subject cl s self = Inr self'"
  obtains
    (plain) "getitem cl s = Inr False" "self' = self\<lparr>variables := variables self @ [s]\<rparr>"
  | (split) sv pv dv where "getitem cl s = Inr True"
      "map_of (semesters self) s = Some sv"
      "map_of (professors self) s = Some pv"
      "map_of (difficulties self) s = Some dv"
      "self' = self\<lparr>variables := variables self @ [s @ '' Theory'', s @ '' Lab''],
                    laboratories := AList.update (s @ '' Lab'') (s @ '' Theory'') (laboratories self),
                    semesters := AList.update (s @ '' Theory'') sv (AList.delete s (semesters self)),
                    professors := AList.update (s @ '' Theory'') pv (AList.delete s (professors self)),
                    difficulties := AList.update (s @ '' Theory'') dv (AList.delete s (difficulties self))\<rparr>"
proof (cases "getitem cl s")
  case (Inl e)
  with assms show ?thesis by (simp add: init_subject_def)
next
  case (Inr has_lab)
  show ?thesis
  proof (cases has_lab)
    case False
    with Inr assms plain show ?thesis by (simp add: init_subject_def)
  next
    case True
    from assms Inr True obtain sv sems where 1: "dict_pop (semesters self) s = Inr (sv, sems)"
      by (cases "dict_pop (semesters self) s") (auto simp: init_subject_def Let_def)
    from assms Inr True 1 obtain pv profs where 2: "dict_pop (professors self) s = Inr (pv, profs)"
      by (cases "dict_pop (professors self) s") (auto simp: init_subject_def Let_def)
    from assms Inr True 1 2 obtain dv diffs where 3: "dict_pop (difficulties self) s = Inr (dv, diffs)"
      by (cases "dict_pop (difficulties self) s") (auto simp: init_subject_def Let_def)
    from assms Inr True 1 2 3 have "self' = self\<lparr>variables := variables self @ [s @ '' Theory'', s @ '' Lab''],
                    laboratories := AList.update (s @ '' Lab'') (s @ '' Theory'') (laboratories self),
                    semesters := AList.update (s @ '' Theory'') sv sems,
                    professors := AList.update (s @ '' Theory'') pv profs,
                    difficulties := AList.update (s @ '' Theory'') dv diffs\<rparr>"
      by (simp add: init_subject_def Let_def)
    with 1 2 3 Inr True split show ?thesis
      by (simp add: dict_pop_Inr_iff)
  qed
qed

lemma labs_wf_update:
  assumes "labs_wf labs"
  shows "labs_wf (AList.update (n @ '' Lab'') (n @ '' Theory'') labs)"
proof -
  have "set (AList.update (n @ '' Lab'') (n @ '' Theory'') labs)
          \<subseteq> insert (n @ '' Lab'', n @ '' Theory'') (set labs)"
    by (rule set_update_subset)
  with assms show ?thesis
    unfolding labs_wf_def by blast
qed

lemma keys_update_delete:
  "fst ` set (AList.update k v (AList.delete s al)) = insert k (fst ` set al - {s})"
  by (simp add: dom_update keys_delete)

lemma init_subject_inv:
  assumes "init_subject cl s self = Inr self'" and "build_inv self"
  shows "build_inv self'"
  using assms(1)
proof (cases rule: init_subject_cases)
  case plain
  with assms(2) show ?thesis
    by (auto simp: build_inv_def)
next
  case (split sv pv dv)
  from assms(2) have wf: "labs_wf (laboratories self)"
    and sub: "fst ` set (laboratories self) \<subseteq> set (variables self)"
    and kp: "fst ` set (professors self) = fst ` set (semesters self)"
    and kd: "fst ` set (difficulties self) = fst ` set (semesters self)"
    by (simp_all add: build_inv_def)
  have 1: "labs_wf (laboratories self')"
    using wf split(5) by (simp add: labs_wf_update)
  have 2: "fst ` set (laboratories self') \<subseteq> set (variables self')"
    using sub split(5) by (auto simp: dom_update)
  have 3: "fst ` set (professors self') = fst ` set (semesters self')"
    using kp split(5) by (simp add: keys_update_delete)
  have 4: "fst ` set (difficulties self') = fst ` set (semesters self')"
    using kd split(5) by (simp add: keys_update_delete)
  from 1 2 3 4 show ?thesis
    by (simp add: build_inv_def)
qed

lemma init_subject_rest:
  assumes "init_subject cl s self = Inr self'"
  shows "domains self' = domains self \<and> neighbors self' = neighbors self
         \<and> var_to_cons self' = var_to_cons self"
  using assms by (cases rule: init_subject_cases) simp_all

lemma init_subjects_inv:
  "init_subjects cl ss self = Inr self' \<Longrightarrow> build_inv self \<Longrightarrow> build_inv self'"
proof (induction ss arbitrary: self)
  case Nil
  then show ?case by simp
next
  case (Cons s ss)
  from Cons.prems(1) obtain self1 where 1: "init_subject cl s self = Inr self1"
    and 2: "init_subjects cl ss self1 = Inr self'"
    by (cases "init_subject cl s self") simp_all
  from 1 Cons.prems(2) have "build_inv self1" by (rule init_subject_inv)
  with 2 show ?case by (rule Cons.IH)
qed

lemma cons_append_Inr:
  "cons_append var cs self = Inr self' \<longleftrightarrow>
     (\<exists>old. map_of (var_to_cons self) var = Some old
        \<and> self' = self\<lparr>var_to_cons := AList.update var (old @ cs) (var_to_cons self)\<rparr>)"
  by (auto simp: cons_append_def getitem_def split: option.splits)

lemma init_var_cons_Inr:
  assumes "init_var_cons var self = Inr self'"
  shows "\<exists>old. map_of (var_to_cons self) var = Some old
           \<and> self' = self\<lparr>var_to_cons :=
                 AList.update var (old @ cons_added self var) (var_to_cons self)\<rparr>"
    and "var \<notin> set (dict_keys (laboratories self)) \<Longrightarrow> map_of (difficulties self) var \<noteq> None"
proof -
  let ?islab = "var \<in> set (dict_keys (laboratories self))"
  let ?labish = "?islab \<or> var \<in> set (dict_values (laboratories self))"
  obtain self1 where s1: "(if ?labish then cons_append var [LabC] self else Inr self) = Inr self1"
    using assms by (auto simp: init_var_cons_def split: sum.splits)
  have old: "\<exists>old. map_of (var_to_cons self) var = Some old"
  proof (cases ?labish)
    case True
    with s1 show ?thesis by (auto simp: cons_append_Inr)
  next
    case False
    then have "\<not> ?islab" by simp
    with s1 False assms show ?thesis
      by (auto simp: init_var_cons_def cons_append_Inr split: sum.splits)
  qed
  then obtain old where o: "map_of (var_to_cons self) var = Some old" ..
  have self1: "self1 = self\<lparr>var_to_cons :=
      AList.update var (old @ (if ?labish then [LabC] else [])) (var_to_cons self)\<rparr>"
    using s1 o by (auto simp: cons_append_Inr update_triv split: if_splits)
  have labs1: "laboratories self1 = laboratories self" and d1: "difficulties self1 = difficulties self"
    using self1 by simp_all
  show "\<exists>old. map_of (var_to_cons self) var = Some old
           \<and> self' = self\<lparr>var_to_cons :=
                 AList.update var (old @ cons_added self var) (var_to_cons self)\<rparr>"
  proof (cases ?islab)
    case True
    with assms s1 labs1 have "self' = self1"
      by (simp add: init_var_cons_def)
    with True self1 o show ?thesis
      by (simp add: cons_added_def)
  next
    case False
    with assms s1 labs1 obtain self2 where
      s2: "cons_append var [SemesterC, ProfessorC] self1 = Inr self2"
      by (auto simp: init_var_cons_def split: sum.splits)
    with self1 have self2: "self2 = self\<lparr>var_to_cons :=
      AList.update var (old @ (if ?labish then [LabC] else []) @ [SemesterC, ProfessorC])
        (var_to_cons self)\<rparr>"
      by (auto simp: cons_append_Inr update_conv')
    from assms s1 labs1 False s2 obtain d where
      d: "getitem (difficulties self2) var = Inr d"
      and fin: "(if d then cons_append var [DifficultyC] self2 else Inr self2) = Inr self'"
      by (auto simp: init_var_cons_def split: sum.splits)
    from d self2 have dd: "map_of (difficulties self) var = Some d"
      by (simp add: getitem_Inr_iff)
    from fin self2 have "self' = self\<lparr>var_to_cons :=
      AList.update var (old @ (if ?labish then [LabC] else []) @ [SemesterC, ProfessorC]
         @ (if d then [DifficultyC] else [])) (var_to_cons self)\<rparr>"
      by (auto simp: cons_append_Inr update_conv' split: if_splits)
    with False dd o show ?thesis
      by (simp add: cons_added_def)
  qed
  show "map_of (difficulties self) var \<noteq> None" if nl: "\<not> ?islab"
  proof -
    from assms s1 labs1 nl obtain self2 where
      s2: "cons_append var [SemesterC, ProfessorC] self1 = Inr self2"
      by (auto simp: init_var_cons_def split: sum.splits)
    from assms s1 labs1 nl s2 obtain d where
      d: "getitem (difficulties self2) var = Inr d"
      by (auto simp: init_var_cons_def split: sum.splits)
    from s2 have "difficulties self2 = difficulties self1"
      by (auto simp: cons_append_Inr)
    with d d1 show ?thesis by (simp add: getitem_Inr_iff)
  qed
qed

lemma cons_added_cong:
  "laboratories s1 = laboratories s2 \<Longrightarrow> difficulties s1 = difficulties s2
   \<Longrightarrow> cons_added s1 v = cons_added s2 v"
  by (simp add: cons_added_def)

lemma init_vars_cons_step:
  assumes "init_vars_cons (w # ws) self = Inr self'"
  obtains old where "map_of (var_to_cons self) w = Some old"
    and "init_vars_cons ws
           (self\<lparr>var_to_cons := AList.update w (old @ cons_added self w) (var_to_cons self)\<rparr>)
         = Inr self'"
    and "w \<notin> set (dict_keys (laboratories self)) \<longrightarrow> map_of (difficulties self) w \<noteq> None"
proof -
  from assms obtain self1 where a: "init_var_cons w self = Inr self1"
    and b: "init_vars_cons ws self1 = Inr self'"
    by (cases "init_var_cons w self") simp_all
  from init_var_cons_Inr(1)[OF a] obtain old where
    o: "map_of (var_to_cons self) w = Some old" and
    s1: "self1 = self\<lparr>var_to_cons := AList.update w (old @ cons_added self w) (var_to_cons self)\<rparr>"
    by blast
  have d: "w \<notin> set (dict_keys (laboratories self)) \<longrightarrow> map_of (difficulties self) w \<noteq> None"
    using init_var_cons_Inr(2)[OF a] by blast
  from o b s1 d that show thesis by blast
qed

lemma init_vars_cons_fields:
  "init_vars_cons ws self = Inr self' \<Longrightarrow>
     semesters self' = semesters self \<and> professors self' = professors self
     \<and> difficulties self' = difficulties self \<and> variables self' = variables self
     \<and> laboratories self' = laboratories self \<and> domains self' = domains self
     \<and> neighbors self' = neighbors self"
proof (induction ws arbitrary: self)
  case Nil
  then show ?case by simp
next
  case (Cons w ws)
  from Cons.prems obtain old where
    "init_vars_cons ws
           (self\<lparr>var_to_cons := AList.update w (old @ cons_added self w) (var_to_cons self)\<rparr>)
         = Inr self'"
    by (rule init_vars_cons_step)
  from Cons.IH[OF this] show ?case by simp
qed

lemma init_vars_cons_lists:
  "init_vars_cons ws self = Inr self' \<Longrightarrow>
     map_of (var_to_cons self') v =
       map_option (\<lambda>old. old @ concat (replicate (count_list ws v) (cons_added self v)))
         (map_of (var_to_cons self) v)"
proof (induction ws arbitrary: self)
  case Nil
  then show ?case by (simp add: option.map_ident)
next
  case (Cons w ws)
  from Cons.prems obtain old where o: "map_of (var_to_cons self) w = Some old"
    and b: "init_vars_cons ws
           (self\<lparr>var_to_cons := AList.update w (old @ cons_added self w) (var_to_cons self)\<rparr>)
         = Inr self'"
    by (rule init_vars_cons_step)
  let ?s1 = "self\<lparr>var_to_cons := AList.update w (old @ cons_added self w) (var_to_cons self)\<rparr>"
  have c: "cons_added ?s1 v = cons_added self v"
    by (rule cons_added_cong) simp_all
  have m: "map_of (var_to_cons ?s1) v =
        (if v = w then Some (old @ cons_added self w) else map_of (var_to_cons self) v)"
    by (simp add: update_conv')
  have ih: "map_of (var_to_cons self') v =
       map_option (\<lambda>old. old @ concat (replicate (count_list ws v) (cons_added self v)))
         (map_of (var_to_cons ?s1) v)"
    using Cons.IH[OF b] c by simp
  show ?case
  proof (cases "v = w")
    case True
    with ih m o show ?thesis by simp
  next
    case False
    with ih m show ?thesis by simp
  qed
qed

lemma init_vars_cons_defined:
  "init_vars_cons ws self = Inr self' \<Longrightarrow> w \<in> set ws \<Longrightarrow>
     map_of (var_to_cons self) w \<noteq> None
     \<and> (w \<notin> set (dict_keys (laboratories self)) \<longrightarrow> map_of (difficulties self) w \<noteq> None)"
proof (induction ws arbitrary: self)
  case Nil
  then show ?case by simp
next
  case (Cons x ws)
  from Cons.prems(1) obtain old where o: "map_of (var_to_cons self) x = Some old"
    and b: "init_vars_cons ws
           (self\<lparr>var_to_cons := AList.update x (old @ cons_added self x) (var_to_cons self)\<rparr>)
         = Inr self'"
    and d: "x \<notin> set (dict_keys (laboratories self)) \<longrightarrow> map_of (difficulties self) x \<noteq> None"
    by (rule init_vars_cons_step)
  show ?case
  proof (cases "w = x")
    case True
    with o d show ?thesis by simp
  next
    case False
    with Cons.prems(2) have "w \<in> set ws" by simp
    from Cons.IH[OF b this] False show ?thesis
      by (simp add: update_conv')
  qed
qed

lemma build_inv_cong:
  "build_inv s1 \<Longrightarrow> laboratories s2 = laboratories s1 \<Longrightarrow> variables s2 = variables s1
   \<Longrightarrow> semesters s2 = semesters s1 \<Longrightarrow> professors s2 = professors s1
   \<Longrightarrow> difficulties s2 = difficulties s1 \<Longrightarrow> build_inv s2"
  by (simp add: build_inv_def)

lemma Exams_init_cases:
  assumes "Exams_init data = Inr self"
  obtains self1 where
    "init_subjects (dict_zip (map Subject data) (map Lab data)) (map Subject data)
       \<lparr>semesters = dict_zip (map Subject data) (map Semester data),
        professors = dict_zip (map Subject data) (map Professor data),
        difficulties = dict_zip (map Subject data) (map Difficult data),
        variables = [], laboratories = [], domains = [], neighbors = [], var_to_cons = []\<rparr>
     = Inr self1"
    and "init_vars_cons (variables self1)
       (self1\<lparr>domains := dict_comp (variables self1) (\<lambda>var. full_domain),
              neighbors := dict_comp (variables self1)
                 (\<lambda>var. filter (\<lambda>sub. sub \<noteq> var) (variables self1)),
              var_to_cons := dict_comp (variables self1) (\<lambda>var. [SlotC])\<rparr>) = Inr self"
  using assms
  by (auto simp: Exams_init_def Let_def split: sum.splits)

lemma Exams_init_build_inv:
  assumes "Exams_init data = Inr self"
  shows "build_inv self"
  using assms
proof (cases rule: Exams_init_cases)
  case (1 self1)
  let ?self0 = "\<lparr>semesters = dict_zip (map Subject data) (map Semester data),
        professors = dict_zip (map Subject data) (map Professor data),
        difficulties = dict_zip (map Subject data) (map Difficult data),
        variables = [], laboratories = [], domains = [], neighbors = [], var_to_cons = []\<rparr>"
  have "build_inv ?self0"
    by (simp add: build_inv_def labs_wf_def keys_dict_zip)
  with 1(1) have b1: "build_inv self1" by (rule init_subjects_inv)
  from init_vars_cons_fields[OF 1(2)] have
    "laboratories self = laboratories self1" "variables self = variables self1"
    "semesters self = semesters self1" "professors self = professors self1"
    "difficulties self = difficulties self1"
    by simp_all
  with b1 show ?thesis by (rule build_inv_cong)
qed

lemma Exams_init_domains:
  assumes "Exams_init data = Inr self"
  shows "map_of (domains self) v = (if v \<in> set (variables self) then Some full_domain else None)"
  using assms
proof (cases rule: Exams_init_cases)
  case (1 self1)
  from init_vars_cons_fields[OF 1(2)] show ?thesis
    by (simp add: map_of_dict_comp)
qed

lemma Exams_init_neighbors:
  assumes "Exams_init data = Inr self"
  shows "map_of (neighbors self) v =
    (if v \<in> set (variables self) then Some (filter (\<lambda>sub. sub \<noteq> v) (variables self)) else None)"
  using assms
proof (cases rule: Exams_init_cases)
  case (1 self1)
  from init_vars_cons_fields[OF 1(2)] show ?thesis
    by (simp add: map_of_dict_comp)
qed

lemma Exams_init_var_to_cons:
  assumes "Exams_init data = Inr self"
  shows "map_of (var_to_cons self) v =
    (if v \<in> set (variables self)
     then Some (SlotC # concat (replicate (count_list (variables self) v) (cons_added self v)))
     else None)"
  using assms
proof (cases rule: Exams_init_cases)
  case (1 self1)
  let ?s2 = "self1\<lparr>domains := dict_comp (variables self1) (\<lambda>var. full_domain),
              neighbors := dict_comp (variables self1)
                 (\<lambda>var. filter (\<lambda>sub. sub \<noteq> var) (variables self1)),
              var_to_cons := dict_comp (variables self1) (\<lambda>var. [SlotC])\<rparr>"
  from init_vars_cons_fields[OF 1(2)] have f: "variables self = variables self1"
    "laboratories self = laboratories ?s2" "difficulties self = difficulties ?s2"
    by simp_all
  have c: "cons_added ?s2 v = cons_added self v"
    by (rule cons_added_cong) (simp_all add: f)
  from init_vars_cons_lists[OF 1(2), of v] c f(1) show ?thesis
    by (simp add: map_of_dict_comp)
qed

lemma Exams_init_difficulty_defined:
  assumes "Exams_init data = Inr self" and "v \<in> set (variables self)"
    and "v \<notin> set (dict_keys (laboratories self))"
  shows "map_of (difficulties self) v \<noteq> None"
  using assms(1)
proof (cases rule: Exams_init_cases)
  case (1 self1)
  from init_vars_cons_fields[OF 1(2)] have f: "variables self = variables self1"
    "laboratories self = laboratories self1" "difficulties self = difficulties self1"
    by simp_all
  from assms(2) f have "v \<in> set (variables self1)" by simp
  from init_vars_cons_defined[OF 1(2) this] assms(3) f show ?thesis by simp
qed

lemma scenario_built: "Exams_init scenario = Inr scenario_exams"
  unfolding scenario_def scenario_exams_def by code_simp

lemma lab_of_eq: "lab_of self X Y = Inr (map_of (laboratories self) X = Some Y)"
proof (cases "map_of (laboratories self) X")
  case None
  then have "X \<notin> fst ` set (laboratories self)" by (simp add: map_of_eq_None_iff)
  with None show ?thesis by (simp add: lab_of_def dict_keys_def)
next
  case (Some t)
  then have "X \<in> fst ` set (laboratories self)"
    by (metis map_of_eq_None_iff option.distinct(1))
  with Some show ?thesis by (auto simp: lab_of_def dict_keys_def getitem_def)
qed

lemma lab_constraint_eq:
  "lab_constraint self A a B b =
     Inr (if map_of (laboratories self) A = Some B then fst a = fst b \<and> snd a = snd b + 1
          else if map_of (laboratories self) B = Some A then fst b = fst a \<and> snd b = snd a + 1
          else True)"
  by (simp add: lab_constraint_def lab_of_eq)

lemma labs_wf_lookup:
  assumes "labs_wf labs" and "map_of labs L = Some T"
  shows "\<exists>n. L = n @ '' Lab'' \<and> T = n @ '' Theory''"
proof -
  from assms(2) have "(L, T) \<in> set labs" by (rule map_of_SomeD)
  with assms(1) show ?thesis unfolding labs_wf_def by blast
qed

lemma Lab_not_Theory: "n @ '' Lab'' \<noteq> m @ '' Theory''"
proof
  assume "n @ '' Lab'' = m @ '' Theory''"
  then have "last (n @ '' Lab'') = last (m @ '' Theory'')" by simp
  then show False by simp
qed

lemma labs_wf_no_cycle:
  assumes "labs_wf labs" and "map_of labs L = Some T"
  shows "map_of labs T \<noteq> Some L"
proof
  assume "map_of labs T = Some L"
  with assms(1) obtain m where "T = m @ '' Lab''" using labs_wf_lookup by blast
  moreover from assms obtain n where "T = n @ '' Theory''" using labs_wf_lookup by blast
  ultimately show False using Lab_not_Theory by metis
qed

lemma set_full_domain: "set full_domain = {0..20} \<times> {0..2}"
  by (auto simp: full_domain_def)

lemma length_full_domain: "length full_domain = 63"
  unfolding full_domain_def by code_simp

text \<open>
  Claim C4. In a built encoding, for a Lab variable \<open>L\<close> with value \<open>a\<close> and its registered
  Theory variable \<open>T\<close> with value \<open>b\<close>, lab-ordering holds, in either order of the pair,
  iff the Lab's day equals the Theory's day and the Lab's slot is the Theory's slot plus one;
  for a pair where neither variable is the registered partner of the other it returns true.
\<close>

theorem lab_constraint_partner:
  assumes "Exams_init data = Inr self"
  shows "(map_of (laboratories self) L = Some T \<longrightarrow>
            lab_constraint self L a T b = Inr (fst a = fst b \<and> snd a = snd b + 1)
            \<and> lab_constraint self T b L a = Inr (fst a = fst b \<and> snd a = snd b + 1))
         \<and> (map_of (laboratories self) A \<noteq> Some B \<and> map_of (laboratories self) B \<noteq> Some A \<longrightarrow>
            lab_constraint self A a B b = Inr True)"
proof -
  from assms have "build_inv self" by (rule Exams_init_build_inv)
  then have wf: "labs_wf (laboratories self)" by (simp add: build_inv_def)
  have "map_of (laboratories self) T \<noteq> Some L" if "map_of (laboratories self) L = Some T"
    using wf that by (rule labs_wf_no_cycle)
  then show ?thesis
    by (simp add: lab_constraint_eq)
qed

theorem lab_constraint_partner_witness:
  "Exams_init scenario = Inr scenario_exams
   \<and> map_of (laboratories scenario_exams) ''Algorithms Lab'' = Some ''Algorithms Theory''
   \<and> lab_constraint scenario_exams ''Algorithms Lab'' (5, 1) ''Algorithms Theory'' (5, 0) = Inr True
   \<and> lab_constraint scenario_exams ''Algorithms Theory'' (5, 0) ''Algorithms Lab'' (5, 1) = Inr True
   \<and> map_of (laboratories scenario_exams) ''History'' \<noteq> Some ''Algorithms Lab''
   \<and> map_of (laboratories scenario_exams) ''Algorithms Lab'' \<noteq> Some ''History''
   \<and> lab_constraint scenario_exams ''History'' (5, 1) ''Algorithms Lab'' (7, 0) = Inr True"
proof -
  have l: "map_of (laboratories scenario_exams) ''Algorithms Lab'' = Some ''Algorithms Theory''"
    and n1: "map_of (laboratories scenario_exams) ''History'' \<noteq> Some ''Algorithms Lab''"
    and n2: "map_of (laboratories scenario_exams) ''Algorithms Lab'' \<noteq> Some ''History''"
    by (simp_all add: scenario_exams_def)
  from lab_constraint_partner[OF scenario_built, of "''Algorithms Lab''" "''Algorithms Theory''"
      "(5, 1)" "(5, 0)" "''History''" "''Algorithms Lab''"] l
  have 1: "lab_constraint scenario_exams ''Algorithms Lab'' (5, 1) ''Algorithms Theory'' (5, 0) = Inr True"
    and 2: "lab_constraint scenario_exams ''Algorithms Theory'' (5, 0) ''Algorithms Lab'' (5, 1) = Inr True"
    by simp_all
  from lab_constraint_partner[OF scenario_built, of "''Algorithms Lab''" "''Algorithms Theory''"
      "(5, 1)" "(7, 0)" "''History''" "''Algorithms Lab''"] n1 n2
  have 3: "lab_constraint scenario_exams ''History'' (5, 1) ''Algorithms Lab'' (7, 0) = Inr True"
    by simp
  from scenario_built l n1 n2 1 2 3 show ?thesis by simp
qed

lemma Exams_init_lab_is_variable:
  assumes "Exams_init data = Inr self" and "map_of (laboratories self) L = Some T"
  shows "L \<in> set (variables self)"
proof -
  from assms(1) have "build_inv self" by (rule Exams_init_build_inv)
  then have "fst ` set (laboratories self) \<subseteq> set (variables self)"
    by (simp add: build_inv_def)
  moreover from assms(2) have "L \<in> fst ` set (laboratories self)"
    by (metis map_of_eq_None_iff option.distinct(1))
  ultimately show ?thesis by blast
qed

lemma lab_constraint_pair:
  assumes "Exams_init data = Inr self" and "map_of (laboratories self) L = Some T"
  shows "lab_constraint self L a T b = Inr (fst a = fst b \<and> snd a = snd b + 1)"
    and "lab_constraint self T b L a = Inr (fst a = fst b \<and> snd a = snd b + 1)"
proof -
  from assms(1) have "build_inv self" by (rule Exams_init_build_inv)
  then have "labs_wf (laboratories self)" by (simp add: build_inv_def)
  then have "map_of (laboratories self) T \<noteq> Some L"
    using assms(2) by (rule labs_wf_no_cycle)
  with assms(2) show "lab_constraint self L a T b = Inr (fst a = fst b \<and> snd a = snd b + 1)"
    and "lab_constraint self T b L a = Inr (fst a = fst b \<and> snd a = snd b + 1)"
    by (simp_all add: lab_constraint_eq)
qed

text \<open>
  Claim C5. In a built encoding, when the Theory variable of a Lab variable has a value
  with slot index 2, lab-ordering returns false (and raises nothing) for every value of
  the Lab variable's domain, in either order of the pair.
\<close>

theorem lab_constraint_last_slot:
  assumes "Exams_init data = Inr self" and "map_of (laboratories self) L = Some T"
  shows "\<exists>vals. map_of (domains self) L = Some vals
           \<and> (\<forall>v\<in>set vals. lab_constraint self L v T (d, 2) = Inr False
                            \<and> lab_constraint self T (d, 2) L v = Inr False)"
proof -
  from assms have "L \<in> set (variables self)" by (rule Exams_init_lab_is_variable)
  with assms(1) have dom: "map_of (domains self) L = Some full_domain"
    by (simp add: Exams_init_domains)
  have "lab_constraint self L v T (d, 2) = Inr False
        \<and> lab_constraint self T (d, 2) L v = Inr False" if "v \<in> set full_domain" for v
  proof -
    from that have "snd v \<noteq> 3" by (auto simp: set_full_domain)
    then have "\<not> (fst v = fst (d, 2::int) \<and> snd v = snd (d, 2::int) + 1)" by simp
    with lab_constraint_pair[OF assms, where a = v and b = "(d, 2)"]
    show ?thesis by simp
  qed
  with dom show ?thesis by blast
qed

theorem lab_constraint_last_slot_witness:
  "Exams_init scenario = Inr scenario_exams
   \<and> map_of (laboratories scenario_exams) ''Algorithms Lab'' = Some ''Algorithms Theory''
   \<and> map_of (domains scenario_exams) ''Algorithms Lab'' = Some full_domain
   \<and> (5, 0) \<in> set full_domain
   \<and> lab_constraint scenario_exams ''Algorithms Lab'' (5, 0) ''Algorithms Theory'' (5, 2) = Inr False
   \<and> lab_constraint scenario_exams ''Algorithms Theory'' (5, 2) ''Algorithms Lab'' (5, 0) = Inr False"
proof -
  have l: "map_of (laboratories scenario_exams) ''Algorithms Lab'' = Some ''Algorithms Theory''"
    and d: "map_of (domains scenario_exams) ''Algorithms Lab'' = Some full_domain"
    by (simp_all add: scenario_exams_def)
  have m: "(5, 0) \<in> set full_domain" by (simp add: set_full_domain)
  from lab_constraint_last_slot[OF scenario_built l, of 5] d
  have "\<forall>v\<in>set full_domain.
          lab_constraint scenario_exams ''Algorithms Lab'' v ''Algorithms Theory'' (5, 2) = Inr False
          \<and> lab_constraint scenario_exams ''Algorithms Theory'' (5, 2) ''Algorithms Lab'' v = Inr False"
    by simp
  with m have
    "lab_constraint scenario_exams ''Algorithms Lab'' (5, 0) ''Algorithms Theory'' (5, 2) = Inr False
     \<and> lab_constraint scenario_exams ''Algorithms Theory'' (5, 2) ''Algorithms Lab'' (5, 0) = Inr False"
    by blast
  with scenario_built l d m show ?thesis by simp
qed

text \<open>
  Claim C8. In a built encoding each of the five predicates gives the same result on
  \<open>(A, a, B, b)\<close> and on \<open>(B, b, A, a)\<close>: slot-uniqueness, lab-ordering and
  difficulty-separation for all variables, semester- and professor-uniqueness as the same
  boolean whenever both variables are keys of the attribute dict.
\<close>

theorem constraints_symmetric:
  assumes "Exams_init data = Inr self"
  shows "slot_constraint self A a B b = slot_constraint self B b A a
         \<and> (\<exists>r. lab_constraint self A a B b = Inr r \<and> lab_constraint self B b A a = Inr r)
         \<and> (A \<in> set (dict_keys (semesters self)) \<and> B \<in> set (dict_keys (semesters self)) \<longrightarrow>
              (\<exists>r. semester_constraint self A a B b = Inr r
                    \<and> semester_constraint self B b A a = Inr r))
         \<and> (A \<in> set (dict_keys (professors self)) \<and> B \<in> set (dict_keys (professors self)) \<longrightarrow>
              (\<exists>r. professor_constraint self A a B b = Inr r
                    \<and> professor_constraint self B b A a = Inr r))
         \<and> difficulty_constraint self A a B b = difficulty_constraint self B b A a"
proof -
  have slot: "slot_constraint self A a B b = slot_constraint self B b A a"
    by (auto simp: slot_constraint_def)
  have diff: "difficulty_constraint self A a B b = difficulty_constraint self B b A a"
    by (simp add: difficulty_constraint_def abs_minus_commute)
  from assms have "build_inv self" by (rule Exams_init_build_inv)
  then have wf: "labs_wf (laboratories self)" by (simp add: build_inv_def)
  have "\<not> (map_of (laboratories self) A = Some B \<and> map_of (laboratories self) B = Some A)"
    using labs_wf_no_cycle[OF wf] by blast
  then have lab: "lab_constraint self A a B b = lab_constraint self B b A a"
    by (auto simp: lab_constraint_eq)
  have lab': "\<exists>r. lab_constraint self A a B b = Inr r" by (simp add: lab_constraint_eq)
  have sem: "\<exists>r. semester_constraint self A a B b = Inr r
                    \<and> semester_constraint self B b A a = Inr r"
    if "A \<in> set (dict_keys (semesters self))" "B \<in> set (dict_keys (semesters self))"
  proof -
    from that obtain sa sb where "map_of (semesters self) A = Some sa"
      "map_of (semesters self) B = Some sb"
      by (metis dict_keys_def set_map map_of_eq_None_iff not_Some_eq)
    then show ?thesis by (auto simp: semester_constraint_def getitem_def)
  qed
  have prof: "\<exists>r. professor_constraint self A a B b = Inr r
                    \<and> professor_constraint self B b A a = Inr r"
    if "A \<in> set (dict_keys (professors self))" "B \<in> set (dict_keys (professors self))"
  proof -
    from that obtain pa pb where "map_of (professors self) A = Some pa"
      "map_of (professors self) B = Some pb"
      by (metis dict_keys_def set_map map_of_eq_None_iff not_Some_eq)
    then show ?thesis by (auto simp: professor_constraint_def getitem_def)
  qed
  from slot diff lab lab' sem prof show ?thesis by metis
qed

theorem constraints_symmetric_witness:
  "Exams_init scenario = Inr scenario_exams
   \<and> ''History'' \<in> set (dict_keys (semesters scenario_exams))
   \<and> ''Algorithms Theory'' \<in> set (dict_keys (semesters scenario_exams))
   \<and> ''History'' \<in> set (dict_keys (professors scenario_exams))
   \<and> ''Algorithms Theory'' \<in> set (dict_keys (professors scenario_exams))
   \<and> slot_constraint scenario_exams ''History'' (0, 0) ''Algorithms Theory'' (0, 1)
       = slot_constraint scenario_exams ''Algorithms Theory'' (0, 1) ''History'' (0, 0)
   \<and> lab_constraint scenario_exams ''History'' (0, 0) ''Algorithms Theory'' (0, 1)
       = lab_constraint scenario_exams ''Algorithms Theory'' (0, 1) ''History'' (0, 0)
   \<and> semester_constraint scenario_exams ''History'' (0, 0) ''Algorithms Theory'' (0, 1) = Inr False
   \<and> semester_constraint scenario_exams ''Algorithms Theory'' (0, 1) ''History'' (0, 0) = Inr False
   \<and> professor_constraint scenario_exams ''History'' (0, 0) ''Algorithms Theory'' (0, 1) = Inr True
   \<and> professor_constraint scenario_exams ''Algorithms Theory'' (0, 1) ''History'' (0, 0) = Inr True
   \<and> difficulty_constraint scenario_exams ''History'' (0, 0) ''Algorithms Theory'' (0, 1)
       = difficulty_constraint scenario_exams ''Algorithms Theory'' (0, 1) ''History'' (0, 0)"
proof -
  have k: "''History'' \<in> set (dict_keys (semesters scenario_exams))"
    "''Algorithms Theory'' \<in> set (dict_keys (semesters scenario_exams))"
    "''History'' \<in> set (dict_keys (professors scenario_exams))"
    "''Algorithms Theory'' \<in> set (dict_keys (professors scenario_exams))"
    by (simp_all add: scenario_exams_def dict_keys_def)
  have s: "semester_constraint scenario_exams ''History'' (0, 0) ''Algorithms Theory'' (0, 1) = Inr False"
    by (simp add: semester_constraint_def getitem_def scenario_exams_def)
  have p: "professor_constraint scenario_exams ''History'' (0, 0) ''Algorithms Theory'' (0, 1) = Inr True"
    by (simp add: professor_constraint_def getitem_def scenario_exams_def)
  note sym = constraints_symmetric[OF scenario_built, of "''History''" "(0, 0)"
      "''Algorithms Theory''" "(0, 1)"]
  from sym have 1: "slot_constraint scenario_exams ''History'' (0, 0) ''Algorithms Theory'' (0, 1)
       = slot_constraint scenario_exams ''Algorithms Theory'' (0, 1) ''History'' (0, 0)"
    by blast
  from sym have 2: "lab_constraint scenario_exams ''History'' (0, 0) ''Algorithms Theory'' (0, 1)
       = lab_constraint scenario_exams ''Algorithms Theory'' (0, 1) ''History'' (0, 0)"
    by auto
  from sym k s have 3:
    "semester_constraint scenario_exams ''Algorithms Theory'' (0, 1) ''History'' (0, 0) = Inr False"
    by auto
  from sym k p have 4:
    "professor_constraint scenario_exams ''Algorithms Theory'' (0, 1) ''History'' (0, 0) = Inr True"
    by auto
  from sym have 5: "difficulty_constraint scenario_exams ''History'' (0, 0) ''Algorithms Theory'' (0, 1)
       = difficulty_constraint scenario_exams ''Algorithms Theory'' (0, 1) ''History'' (0, 0)"
    by blast
  from scenario_built k s p 1 2 3 4 5 show ?thesis by blast
qed

lemma set_concat_replicate: "set (concat (replicate n xs)) = (if n = 0 then {} else set xs)"
  by (induction n) auto

lemma Exams_init_carried:
  assumes "Exams_init data = Inr self" and "v \<in> set (variables self)"
  shows "\<exists>cs. map_of (var_to_cons self) v = Some cs \<and> set cs = insert SlotC (set (cons_added self v))"
proof -
  from assms(2) have "count_list (variables self) v \<noteq> 0"
    by (simp add: count_list_0_iff)
  with assms show ?thesis
    by (simp add: Exams_init_var_to_cons set_concat_replicate)
qed

lemma cons_added_mem:
  "LabC \<in> set (cons_added self v) \<longleftrightarrow>
     v \<in> set (dict_keys (laboratories self)) \<or> v \<in> set (dict_values (laboratories self))"
  "SemesterC \<in> set (cons_added self v) \<longleftrightarrow> v \<notin> set (dict_keys (laboratories self))"
  "ProfessorC \<in> set (cons_added self v) \<longleftrightarrow> v \<notin> set (dict_keys (laboratories self))"
  "DifficultyC \<in> set (cons_added self v) \<longleftrightarrow>
     v \<notin> set (dict_keys (laboratories self)) \<and> map_of (difficulties self) v = Some True"
  "SlotC \<notin> set (cons_added self v)"
  by (simp_all add: cons_added_def)

lemma in_keys_iff: "k \<in> set (dict_keys d) \<longleftrightarrow> map_of d k \<noteq> None"
  by (simp add: dict_keys_def map_of_eq_None_iff)

lemma Exams_init_attributes_defined:
  assumes "Exams_init data = Inr self" and "v \<in> set (variables self)"
    and "v \<notin> set (dict_keys (laboratories self))"
  shows "map_of (semesters self) v \<noteq> None" and "map_of (professors self) v \<noteq> None"
    and "map_of (difficulties self) v \<noteq> None"
proof -
  from assms show d: "map_of (difficulties self) v \<noteq> None"
    by (rule Exams_init_difficulty_defined)
  from assms(1) have "build_inv self" by (rule Exams_init_build_inv)
  then have kp: "fst ` set (professors self) = fst ` set (semesters self)"
    and kd: "fst ` set (difficulties self) = fst ` set (semesters self)"
    by (simp_all add: build_inv_def)
  from d kd show s: "map_of (semesters self) v \<noteq> None"
    by (simp add: map_of_eq_None_iff)
  with kp show "map_of (professors self) v \<noteq> None"
    by (simp add: map_of_eq_None_iff)
qed

lemma semester_constraint_Inr:
  "map_of (semesters self) A \<noteq> None \<Longrightarrow> map_of (semesters self) B \<noteq> None
   \<Longrightarrow> \<exists>r. semester_constraint self A a B b = Inr r"
  by (auto simp: semester_constraint_def getitem_def)

lemma professor_constraint_Inr:
  "map_of (professors self) A \<noteq> None \<Longrightarrow> map_of (professors self) B \<noteq> None
   \<Longrightarrow> \<exists>r. professor_constraint self A a B b = Inr r"
  by (auto simp: professor_constraint_def getitem_def)

lemma semester_constraint_KeyError:
  "map_of (semesters self) A = None \<or> map_of (semesters self) B = None
   \<Longrightarrow> semester_constraint self A a B b = Inl KeyError"
  by (auto simp: semester_constraint_def getitem_def split: option.splits)

lemma professor_constraint_KeyError:
  "map_of (professors self) A = None \<or> map_of (professors self) B = None
   \<Longrightarrow> professor_constraint self A a B b = Inl KeyError"
  by (auto simp: professor_constraint_def getitem_def split: option.splits)

text \<open>
  Claim C2, as the code has it. In a built encoding, take a variable \<open>A\<close>, a predicate
  \<open>c\<close> of its list and a second variable \<open>B\<close>. When \<open>B\<close> is not a Lab variable, \<open>c\<close>
  evaluates to a boolean on every pair of values. Slot-uniqueness, lab-ordering and
  difficulty-separation evaluate to a boolean whatever \<open>B\<close> is. Semester-uniqueness and
  professor-uniqueness raise \<^verbatim>\<open>KeyError\<close> when \<open>B\<close> is not a key of the attribute dict.
\<close>

theorem predicates_total_off_labs:
  assumes "Exams_init data = Inr self"
    and "A \<in> set (variables self)" and "B \<in> set (variables self)"
    and "map_of (var_to_cons self) A = Some cs" and "c \<in> set cs"
  shows "(B \<notin> set (dict_keys (laboratories self)) \<longrightarrow>
            (\<exists>r. call_constraint self c A a B b = Inr r))
         \<and> (c = SlotC \<or> c = LabC \<or> c = DifficultyC \<longrightarrow>
            (\<exists>r. call_constraint self c A a B b = Inr r))
         \<and> ((c = SemesterC \<or> c = ProfessorC) \<and> B \<notin> set (dict_keys (semesters self)) \<longrightarrow>
            call_constraint self c A a B b = Inl KeyError)"
proof -
  from assms(1,2) obtain cs' where "map_of (var_to_cons self) A = Some cs'"
    and cs': "set cs' = insert SlotC (set (cons_added self A))"
    using Exams_init_carried by blast
  with assms(4) have cs: "set cs = insert SlotC (set (cons_added self A))" by simp
  have easy: "\<exists>r. call_constraint self c A a B b = Inr r"
    if "c = SlotC \<or> c = LabC \<or> c = DifficultyC"
    using that by (auto simp: lab_constraint_eq)
  from assms(1) have "build_inv self" by (rule Exams_init_build_inv)
  then have kp: "fst ` set (professors self) = fst ` set (semesters self)"
    by (simp add: build_inv_def)
  have total: "\<exists>r. call_constraint self c A a B b = Inr r"
    if B: "B \<notin> set (dict_keys (laboratories self))"
  proof (cases "c = SemesterC \<or> c = ProfessorC")
    case False
    then have "c = SlotC \<or> c = LabC \<or> c = DifficultyC" by (cases c) simp_all
    then show ?thesis by (rule easy)
  next
    case True
    with assms(5) cs have "A \<notin> set (dict_keys (laboratories self))"
      by (auto simp: cons_added_mem)
    with assms(1,2) have sA: "map_of (semesters self) A \<noteq> None"
      and pA: "map_of (professors self) A \<noteq> None"
      by (rule Exams_init_attributes_defined)+
    from assms(1,3) B have sB: "map_of (semesters self) B \<noteq> None"
      and pB: "map_of (professors self) B \<noteq> None"
      by (rule Exams_init_attributes_defined)+
    from True show ?thesis
    proof
      assume "c = SemesterC"
      with semester_constraint_Inr[OF sA sB, of a b] show ?thesis by simp
    next
      assume "c = ProfessorC"
      with professor_constraint_Inr[OF pA pB, of a b] show ?thesis by simp
    qed
  qed
  have err: "call_constraint self c A a B b = Inl KeyError"
    if "c = SemesterC \<or> c = ProfessorC" and "B \<notin> set (dict_keys (semesters self))"
  proof -
    from that(2) have "map_of (semesters self) B = None"
      by (simp add: in_keys_iff)
    moreover from this kp have "map_of (professors self) B = None"
      by (simp add: map_of_eq_None_iff)
    ultimately have "semester_constraint self A a B b = Inl KeyError"
      and "professor_constraint self A a B b = Inl KeyError"
      by (simp_all add: semester_constraint_KeyError professor_constraint_KeyError)
    with that(1) show ?thesis by auto
  qed
  from easy total err show ?thesis by blast
qed

theorem predicates_total_off_labs_witness:
  "Exams_init scenario = Inr scenario_exams
   \<and> ''History'' \<in> set (variables scenario_exams)
   \<and> ''Algorithms Theory'' \<in> set (variables scenario_exams)
   \<and> map_of (var_to_cons scenario_exams) ''History'' = Some [SlotC, SemesterC, ProfessorC]
   \<and> SemesterC \<in> set [SlotC, SemesterC, ProfessorC]
   \<and> ''Algorithms Theory'' \<notin> set (dict_keys (laboratories scenario_exams))
   \<and> (\<exists>r. call_constraint scenario_exams SemesterC ''History'' (0, 0) ''Algorithms Theory'' (0, 1)
            = Inr r)"
proof -
  have a: "''History'' \<in> set (variables scenario_exams)"
    and b: "''Algorithms Theory'' \<in> set (variables scenario_exams)"
    and c: "map_of (var_to_cons scenario_exams) ''History'' = Some [SlotC, SemesterC, ProfessorC]"
    and m: "SemesterC \<in> set [SlotC, SemesterC, ProfessorC]"
    and n: "''Algorithms Theory'' \<notin> set (dict_keys (laboratories scenario_exams))"
    by (simp_all add: scenario_exams_def dict_keys_def)
  from predicates_total_off_labs[OF scenario_built a b c m, of "(0, 0)" "(0, 1)"] n
  have "\<exists>r. call_constraint scenario_exams SemesterC ''History'' (0, 0) ''Algorithms Theory'' (0, 1)
            = Inr r"
    by blast
  with scenario_built a b c m n show ?thesis by blast
qed

theorem predicates_total_counterexample:
  "Exams_init scenario = Inr scenario_exams
   \<and> ''History'' \<in> set (variables scenario_exams)
   \<and> ''Algorithms Lab'' \<in> set (variables scenario_exams)
   \<and> ''History'' \<noteq> ''Algorithms Lab''
   \<and> map_of (neighbors scenario_exams) ''History'' = Some [''Algorithms Theory'', ''Algorithms Lab'']
   \<and> (0, 0) \<in> set full_domain \<and> (0, 1) \<in> set full_domain
   \<and> map_of (var_to_cons scenario_exams) ''History'' = Some [SlotC, SemesterC, ProfessorC]
   \<and> ''Algorithms Lab'' \<in> set (dict_keys (laboratories scenario_exams))
   \<and> call_constraint scenario_exams SemesterC ''History'' (0, 0) ''Algorithms Lab'' (0, 1)
       = Inl KeyError
   \<and> call_constraint scenario_exams ProfessorC ''History'' (0, 0) ''Algorithms Lab'' (0, 1)
       = Inl KeyError"
proof -
  have "(0, 0) \<in> set full_domain" "(0, 1) \<in> set full_domain"
    by (simp_all add: set_full_domain)
  moreover have "call_constraint scenario_exams SemesterC ''History'' (0, 0) ''Algorithms Lab'' (0, 1)
       = Inl KeyError"
    by (simp add: semester_constraint_def getitem_def scenario_exams_def)
  moreover have "call_constraint scenario_exams ProfessorC ''History'' (0, 0) ''Algorithms Lab'' (0, 1)
       = Inl KeyError"
    by (simp add: professor_constraint_def getitem_def scenario_exams_def)
  moreover have "''History'' \<in> set (variables scenario_exams)"
    "''Algorithms Lab'' \<in> set (variables scenario_exams)"
    "''History'' \<noteq> ''Algorithms Lab''"
    "map_of (neighbors scenario_exams) ''History'' = Some [''Algorithms Theory'', ''Algorithms Lab'']"
    "map_of (var_to_cons scenario_exams) ''History'' = Some [SlotC, SemesterC, ProfessorC]"
    "''Algorithms Lab'' \<in> set (dict_keys (laboratories scenario_exams))"
    by (simp_all add: scenario_exams_def dict_keys_def)
  ultimately show ?thesis using scenario_built by blast
qed

text \<open>
  Claim C1, as the code has it. The difficulty-separation predicate does not look at the
  two variables: on every pair, Lab variables included, it holds iff the absolute
  difference of the two days is at least 2. In a built encoding it is in the predicate
  list of exactly the variables that are not Lab variables and are flagged difficult.
\<close>

theorem difficulty_constraint_days:
  assumes "Exams_init data = Inr self" and "v \<in> set (variables self)"
  shows "difficulty_constraint self A a B b = (\<bar>fst a - fst b\<bar> \<ge> 2)
         \<and> (\<exists>cs. map_of (var_to_cons self) v = Some cs
               \<and> (DifficultyC \<in> set cs \<longleftrightarrow>
                    v \<notin> set (dict_keys (laboratories self))
                    \<and> map_of (difficulties self) v = Some True))"
proof -
  from assms obtain cs where 1: "map_of (var_to_cons self) v = Some cs"
    and 2: "set cs = insert SlotC (set (cons_added self v))"
    using Exams_init_carried by blast
  from 2 have "DifficultyC \<in> set cs \<longleftrightarrow>
      v \<notin> set (dict_keys (laboratories self)) \<and> map_of (difficulties self) v = Some True"
    by (simp add: cons_added_mem)
  with 1 show ?thesis by (simp add: difficulty_constraint_def)
qed

theorem difficulty_constraint_days_witness:
  "Exams_init scenario = Inr scenario_exams
   \<and> ''Algorithms Theory'' \<in> set (variables scenario_exams)
   \<and> difficulty_constraint scenario_exams ''Algorithms Theory'' (5, 0) ''History'' (7, 0)
   \<and> \<not> difficulty_constraint scenario_exams ''Algorithms Theory'' (5, 0) ''History'' (6, 0)
   \<and> map_of (var_to_cons scenario_exams) ''Algorithms Theory''
       = Some [SlotC, LabC, SemesterC, ProfessorC, DifficultyC]
   \<and> ''Algorithms Theory'' \<notin> set (dict_keys (laboratories scenario_exams))
   \<and> map_of (difficulties scenario_exams) ''Algorithms Theory'' = Some True"
proof -
  have v: "''Algorithms Theory'' \<in> set (variables scenario_exams)"
    and c: "map_of (var_to_cons scenario_exams) ''Algorithms Theory''
       = Some [SlotC, LabC, SemesterC, ProfessorC, DifficultyC]"
    by (simp_all add: scenario_exams_def)
  from difficulty_constraint_days[OF scenario_built v, of "''Algorithms Theory''" "(5, 0)"
      "''History''" "(7, 0)"]
  have 1: "difficulty_constraint scenario_exams ''Algorithms Theory'' (5, 0) ''History'' (7, 0)"
    by simp
  from difficulty_constraint_days[OF scenario_built v, of "''Algorithms Theory''" "(5, 0)"
      "''History''" "(6, 0)"]
  have 2: "\<not> difficulty_constraint scenario_exams ''Algorithms Theory'' (5, 0) ''History'' (6, 0)"
    by simp
  from difficulty_constraint_days[OF scenario_built v, of "''Algorithms Theory''" "(5, 0)"
      "''History''" "(6, 0)"] c
  have 3: "''Algorithms Theory'' \<notin> set (dict_keys (laboratories scenario_exams))
   \<and> map_of (difficulties scenario_exams) ''Algorithms Theory'' = Some True"
    by simp
  from scenario_built v c 1 2 3 show ?thesis by blast
qed

theorem difficulty_constraint_counterexample:
  "Exams_init scenario = Inr scenario_exams
   \<and> ''Algorithms Lab'' \<in> set (dict_keys (laboratories scenario_exams))
   \<and> map_of (var_to_cons scenario_exams) ''Algorithms Theory''
       = Some [SlotC, LabC, SemesterC, ProfessorC, DifficultyC]
   \<and> (5, 0) \<in> set full_domain \<and> (5, 1) \<in> set full_domain
   \<and> lab_constraint scenario_exams ''Algorithms Theory'' (5, 0) ''Algorithms Lab'' (5, 1) = Inr True
   \<and> call_constraint scenario_exams DifficultyC ''Algorithms Theory'' (5, 0) ''Algorithms Lab'' (5, 1)
       = Inr False"
proof -
  have "(5, 0) \<in> set full_domain" "(5, 1) \<in> set full_domain"
    by (simp_all add: set_full_domain)
  moreover have "''Algorithms Lab'' \<in> set (dict_keys (laboratories scenario_exams))"
    "map_of (var_to_cons scenario_exams) ''Algorithms Theory''
       = Some [SlotC, LabC, SemesterC, ProfessorC, DifficultyC]"
    by (simp_all add: scenario_exams_def dict_keys_def)
  moreover have
    "lab_constraint scenario_exams ''Algorithms Theory'' (5, 0) ''Algorithms Lab'' (5, 1) = Inr True"
    by (simp add: lab_constraint_eq scenario_exams_def)
  moreover have
    "call_constraint scenario_exams DifficultyC ''Algorithms Theory'' (5, 0) ''Algorithms Lab'' (5, 1)
       = Inr False"
    by (simp add: difficulty_constraint_def)
  ultimately show ?thesis using scenario_built by blast
qed

lemma cons_append_succeeds:
  "map_of (var_to_cons self) var = Some old \<Longrightarrow>
     cons_append var cs self
       = Inr (self\<lparr>var_to_cons := AList.update var (old @ cs) (var_to_cons self)\<rparr>)"
  by (simp add: cons_append_def getitem_def)

lemma cons_append_succeeds':
  assumes "map_of (var_to_cons self) var \<noteq> None"
  shows "\<exists>self'. cons_append var cs self = Inr self'
           \<and> laboratories self' = laboratories self
           \<and> difficulties self' = difficulties self
           \<and> map_of (var_to_cons self') var \<noteq> None"
proof -
  from assms obtain old where "map_of (var_to_cons self) var = Some old" by blast
  then have "cons_append var cs self
       = Inr (self\<lparr>var_to_cons := AList.update var (old @ cs) (var_to_cons self)\<rparr>)"
    by (rule cons_append_succeeds)
  then show ?thesis by (simp add: update_conv')
qed

lemma init_var_cons_succeeds:
  assumes "map_of (var_to_cons self) var \<noteq> None"
    and "var \<notin> set (dict_keys (laboratories self)) \<longrightarrow> map_of (difficulties self) var \<noteq> None"
  shows "\<exists>self'. init_var_cons var self = Inr self'"
proof -
  let ?labish = "var \<in> set (dict_keys (laboratories self))
               \<or> var \<in> set (dict_values (laboratories self))"
  have "\<exists>self1. (if ?labish then cons_append var [LabC] self else Inr self) = Inr self1
           \<and> laboratories self1 = laboratories self
           \<and> difficulties self1 = difficulties self
           \<and> map_of (var_to_cons self1) var \<noteq> None"
  proof (cases ?labish)
    case True
    with cons_append_succeeds'[OF assms(1), of "[LabC]"] show ?thesis by simp
  next
    case False
    with assms(1) show ?thesis by simp
  qed
  then obtain self1 where
    s1: "(if ?labish then cons_append var [LabC] self else Inr self) = Inr self1"
    and l1: "laboratories self1 = laboratories self"
    and d1: "difficulties self1 = difficulties self"
    and o1: "map_of (var_to_cons self1) var \<noteq> None"
    by blast
  have unf: "init_var_cons var self =
      (if var \<notin> set (dict_keys (laboratories self1)) then
            (case cons_append var [SemesterC, ProfessorC] self1 of
               Inl e \<Rightarrow> Inl e
             | Inr self2 \<Rightarrow>
                 (case getitem (difficulties self2) var of
                    Inl e \<Rightarrow> Inl e
                  | Inr d \<Rightarrow> if d then cons_append var [DifficultyC] self2 else Inr self2))
          else Inr self1)"
    unfolding init_var_cons_def s1 by simp
  show ?thesis
  proof (cases "var \<in> set (dict_keys (laboratories self))")
    case True
    with unf l1 show ?thesis by simp
  next
    case False
    with assms(2) obtain d where d: "map_of (difficulties self) var = Some d" by blast
    from cons_append_succeeds'[OF o1, of "[SemesterC, ProfessorC]"] obtain self2 where
      s2: "cons_append var [SemesterC, ProfessorC] self1 = Inr self2"
      and d2: "difficulties self2 = difficulties self1"
      and o2: "map_of (var_to_cons self2) var \<noteq> None"
      by blast
    have g: "getitem (difficulties self2) var = Inr d"
      using d d1 d2 by (simp add: getitem_def)
    from cons_append_succeeds'[OF o2, of "[DifficultyC]"] obtain self3 where
      s3: "cons_append var [DifficultyC] self2 = Inr self3" by blast
    from unf False l1 s2 g s3 show ?thesis by (cases d) simp_all
  qed
qed

lemma init_vars_cons_succeeds:
  "\<forall>w\<in>set ws. map_of (var_to_cons self) w \<noteq> None
       \<and> (w \<notin> set (dict_keys (laboratories self)) \<longrightarrow> map_of (difficulties self) w \<noteq> None)
   \<Longrightarrow> \<exists>self'. init_vars_cons ws self = Inr self'"
proof (induction ws arbitrary: self)
  case Nil
  show ?case by simp
next
  case (Cons w ws)
  from Cons.prems have "map_of (var_to_cons self) w \<noteq> None"
    and "w \<notin> set (dict_keys (laboratories self)) \<longrightarrow> map_of (difficulties self) w \<noteq> None"
    by simp_all
  then obtain self1 where a: "init_var_cons w self = Inr self1"
    using init_var_cons_succeeds by blast
  from init_var_cons_Inr(1)[OF a] obtain old where
    s1: "self1 = self\<lparr>var_to_cons := AList.update w (old @ cons_added self w) (var_to_cons self)\<rparr>"
    by blast
  have "\<forall>x\<in>set ws. map_of (var_to_cons self1) x \<noteq> None
       \<and> (x \<notin> set (dict_keys (laboratories self1)) \<longrightarrow> map_of (difficulties self1) x \<noteq> None)"
    using Cons.prems s1 by (simp add: update_conv')
  from Cons.IH[OF this] obtain self' where "init_vars_cons ws self1 = Inr self'" ..
  with a have "init_vars_cons (w # ws) self = Inr self'" by simp
  then show ?case ..
qed

lemma all_names_distinct_subjects:
  "distinct (all_names rows) \<Longrightarrow> distinct (map Subject rows)"
  unfolding all_names_def distinct_append by (elim conjE)

lemma disjoint_concatD:
  "set xs \<inter> set (concat (map g rows)) = {} \<Longrightarrow> r' \<in> set rows \<Longrightarrow> y \<in> set (g r')
   \<Longrightarrow> x \<in> set xs \<Longrightarrow> x \<noteq> y"
  by auto

lemma all_names_no_clash:
  assumes "distinct (all_names rows)" and "r \<in> set rows" and "r' \<in> set rows" and "Lab r'"
  shows "Subject r \<noteq> Subject r' @ '' Theory''" and "Subject r \<noteq> Subject r' @ '' Lab''"
proof -
  define gen :: "subject_row \<Rightarrow> string list" where "gen = (\<lambda>r. if Lab r then [Subject r @ '' Theory'', Subject r @ '' Lab''] else [])"
  from assms(1) have disj: "set (map Subject rows) \<inter> set (concat (map gen rows)) = {}"
    unfolding all_names_def distinct_append gen_def by (elim conjE)
  from assms(2) have 1: "Subject r \<in> set (map Subject rows)" by simp
  from assms(4) have 2: "Subject r' @ '' Theory'' \<in> set (gen r')"
    and 3: "Subject r' @ '' Lab'' \<in> set (gen r')"
    by (simp_all add: gen_def)
  from disj assms(3) 2 1 show "Subject r \<noteq> Subject r' @ '' Theory''" by (rule disjoint_concatD)
  from disj assms(3) 3 1 show "Subject r \<noteq> Subject r' @ '' Lab''" by (rule disjoint_concatD)
qed

lemma fold_update_notin:
  "k \<notin> fst ` set ps \<Longrightarrow>
     map_of (fold (\<lambda>(k, v) d. AList.update k v d) ps d0) k = map_of d0 k"
proof (induction ps arbitrary: d0)
  case Nil
  show ?case by simp
next
  case (Cons p ps)
  obtain a b where p: "p = (a, b)" by (cases p)
  from Cons.prems p have "k \<noteq> a" and "k \<notin> fst ` set ps" by auto
  from Cons.IH[OF this(2), of "AList.update a b d0"] \<open>k \<noteq> a\<close> p show ?case
    by (simp add: update_conv')
qed

lemma fold_update_in:
  "distinct (map fst ps) \<Longrightarrow> (k, v) \<in> set ps \<Longrightarrow>
     map_of (fold (\<lambda>(k, v) d. AList.update k v d) ps d0) k = Some v"
proof (induction ps arbitrary: d0)
  case Nil
  then show ?case by simp
next
  case (Cons p ps)
  obtain a b where p: "p = (a, b)" by (cases p)
  show ?case
  proof (cases "p = (k, v)")
    case True
    with Cons.prems(1) have "k \<notin> fst ` set ps" by auto
    then have "map_of (fold (\<lambda>(k, v) d. AList.update k v d) ps (AList.update k v d0)) k
        = map_of (AList.update k v d0) k"
      by (rule fold_update_notin)
    with True show ?thesis by (simp add: update_conv')
  next
    case False
    with Cons.prems have "distinct (map fst ps)" and "(k, v) \<in> set ps" by auto
    from Cons.IH[OF this, of "AList.update a b d0"] p show ?thesis by simp
  qed
qed

lemma map_of_dict_zip:
  fixes rows :: "subject_row list"
  assumes "distinct (map Subject rows)"
  shows "map_of (dict_zip (map Subject rows) (map f rows))
           = map_of (map (\<lambda>r. (Subject r, f r)) rows)"
proof
  fix k
  let ?ps = "map (\<lambda>r. (Subject r, f r)) rows"
  have z: "zip (map Subject rows) (map f rows) = ?ps"
    by (induction rows) simp_all
  have d: "distinct (map fst ?ps)" using assms by (simp add: comp_def)
  show "map_of (dict_zip (map Subject rows) (map f rows)) k = map_of ?ps k"
  proof (cases "map_of ?ps k")
    case None
    then have "k \<notin> fst ` set ?ps" by (simp add: map_of_eq_None_iff)
    then have "map_of (fold (\<lambda>(k, v) d. AList.update k v d) ?ps []) k = map_of [] k"
      by (rule fold_update_notin)
    with None z show ?thesis by (simp add: dict_zip_def)
  next
    case (Some v)
    then have "(k, v) \<in> set ?ps" by (rule map_of_SomeD)
    with d have "map_of (fold (\<lambda>(k, v) d. AList.update k v d) ?ps []) k = Some v"
      by (rule fold_update_in)
    with Some z show ?thesis by (simp add: dict_zip_def)
  qed
qed

lemma update_fresh: "k \<notin> fst ` set al \<Longrightarrow> AList.update k v al = al @ [(k, v)]"
proof (induction al)
  case Nil
  show ?case by simp
next
  case (Cons p al)
  then have "fst p \<noteq> k" and "k \<notin> fst ` set al" by auto
  with Cons.IH show ?case by (cases p) simp
qed

lemma map_of_append_fresh:
  "k \<notin> fst ` set xs \<Longrightarrow> map_of (xs @ ys) k = map_of ys k"
  by (induction xs) auto

lemma map_of_append_other:
  "k \<noteq> j \<Longrightarrow> map_of (xs @ (j, v) # ys) k = map_of (xs @ ys) k"
  by (induction xs) auto

lemma rekey_lookup:
  fixes p s :: "subject_row list" and f :: "subject_row \<Rightarrow> 'v"
  assumes m: "map_of m = map_of (map (\<lambda>r. (spec_attr_key r, f r)) p
                                 @ map (\<lambda>r. (Subject r, f r)) (r # s))"
    and d1: "Subject r \<notin> spec_attr_key ` set p"
  shows "map_of m (Subject r) = Some (f r)"
proof -
  have "Subject r \<notin> fst ` set (map (\<lambda>r. (spec_attr_key r, f r)) p)"
    using d1 by (simp add: image_comp comp_def)
  then have "map_of (map (\<lambda>r. (spec_attr_key r, f r)) p @ map (\<lambda>r. (Subject r, f r)) (r # s))
      (Subject r) = map_of (map (\<lambda>r. (Subject r, f r)) (r # s)) (Subject r)"
    by (rule map_of_append_fresh)
  with m show ?thesis by (simp del: map_of_append)
qed

lemma rekey_step:
  fixes p s :: "subject_row list" and f :: "subject_row \<Rightarrow> 'v"
  assumes m: "map_of m = map_of (map (\<lambda>r. (spec_attr_key r, f r)) p
                                 @ map (\<lambda>r. (Subject r, f r)) (r # s))"
    and lab: "Lab r"
    and d1: "Subject r \<notin> spec_attr_key ` set p"
    and d2: "Subject r @ '' Theory'' \<notin> spec_attr_key ` set p"
    and d3: "Subject r \<notin> Subject ` set s"
  shows "map_of (AList.update (Subject r @ '' Theory'') (f r) (AList.delete (Subject r) m))
           = map_of (map (\<lambda>r. (spec_attr_key r, f r)) (p @ [r])
                     @ map (\<lambda>r. (Subject r, f r)) s)"
proof
  fix k
  let ?A = "map (\<lambda>r. (spec_attr_key r, f r)) p"
  let ?B = "map (\<lambda>r. (Subject r, f r)) s"
  let ?t = "Subject r @ '' Theory''"
  have fA: "fst ` set ?A = spec_attr_key ` set p" by (simp add: image_comp comp_def)
  have fB: "fst ` set ?B = Subject ` set s" by (simp add: image_comp comp_def)
  have lhs: "map_of (AList.update ?t (f r) (AList.delete (Subject r) m)) k
      = (if k = ?t then Some (f r) else if k = Subject r then None
         else map_of (?A @ (Subject r, f r) # ?B) k)"
    by (simp add: update_conv' delete_conv' m del: map_of_append)
  have rhs: "map_of (map (\<lambda>r. (spec_attr_key r, f r)) (p @ [r]) @ ?B) k
      = map_of (?A @ (?t, f r) # ?B) k"
    using lab by (simp add: spec_attr_key_def del: map_of_append)
  show "map_of (AList.update ?t (f r) (AList.delete (Subject r) m)) k
      = map_of (map (\<lambda>r. (spec_attr_key r, f r)) (p @ [r]) @ ?B) k"
  proof (cases "k = ?t")
    case True
    from d2 fA have "?t \<notin> fst ` set ?A" by simp
    then have "map_of (?A @ (?t, f r) # ?B) ?t = map_of ((?t, f r) # ?B) ?t"
      by (rule map_of_append_fresh)
    with True lhs rhs show ?thesis by (simp del: map_of_append)
  next
    case nt: False
    show ?thesis
    proof (cases "k = Subject r")
      case True
      from d1 fA have "Subject r \<notin> fst ` set ?A" by simp
      then have "map_of (?A @ (?t, f r) # ?B) (Subject r) = map_of ((?t, f r) # ?B) (Subject r)"
        by (rule map_of_append_fresh)
      moreover from d3 fB have "map_of ?B (Subject r) = None"
        by (simp add: map_of_eq_None_iff)
      ultimately have "map_of (?A @ (?t, f r) # ?B) (Subject r) = None"
        by (simp del: map_of_append)
      with True nt lhs rhs show ?thesis by (simp del: map_of_append)
    next
      case False
      from nt have "map_of (?A @ (?t, f r) # ?B) k = map_of (?A @ ?B) k"
        by (rule map_of_append_other)
      moreover from False have "map_of (?A @ (Subject r, f r) # ?B) k = map_of (?A @ ?B) k"
        by (rule map_of_append_other)
      ultimately show ?thesis using nt False lhs rhs by (simp del: map_of_append)
    qed
  qed
qed

lemma plain_step:
  fixes p s :: "subject_row list" and f :: "subject_row \<Rightarrow> 'v"
  assumes m: "map_of m = map_of (map (\<lambda>r. (spec_attr_key r, f r)) p
                                 @ map (\<lambda>r. (Subject r, f r)) (r # s))"
    and "\<not> Lab r"
  shows "map_of m = map_of (map (\<lambda>r. (spec_attr_key r, f r)) (p @ [r])
                     @ map (\<lambda>r. (Subject r, f r)) s)"
  using assms by (simp add: spec_attr_key_def del: map_of_append)

lemma init_subject_plain:
  "getitem cl s = Inr False \<Longrightarrow>
     init_subject cl s self = Inr (self\<lparr>variables := variables self @ [s]\<rparr>)"
  by (simp add: init_subject_def)

lemma init_subject_split:
  assumes "getitem cl s = Inr True"
    and "map_of (semesters self) s = Some sv"
    and "map_of (professors self) s = Some pv"
    and "map_of (difficulties self) s = Some dv"
  shows "init_subject cl s self =
     Inr (self\<lparr>variables := variables self @ [s @ '' Theory'', s @ '' Lab''],
               laboratories := AList.update (s @ '' Lab'') (s @ '' Theory'') (laboratories self),
               semesters := AList.update (s @ '' Theory'') sv (AList.delete s (semesters self)),
               professors := AList.update (s @ '' Theory'') pv (AList.delete s (professors self)),
               difficulties := AList.update (s @ '' Theory'') dv (AList.delete s (difficulties self))\<rparr>)"
  using assms by (simp add: init_subject_def Let_def dict_pop_def)

lemma collision_facts:
  fixes p s :: "subject_row list"
  assumes ds: "distinct (map Subject (p @ r # s))"
    and nc: "\<forall>x\<in>set (p @ r # s). \<forall>y\<in>set (p @ r # s). Lab y \<longrightarrow>
               Subject x \<noteq> Subject y @ '' Theory'' \<and> Subject x \<noteq> Subject y @ '' Lab''"
    and lab: "Lab r"
  shows "Subject r \<notin> spec_attr_key ` set p"
    and "Subject r @ '' Theory'' \<notin> spec_attr_key ` set p"
    and "Subject r \<notin> Subject ` set s"
    and "Subject r @ '' Lab''
           \<notin> fst ` set (map (\<lambda>r. (Subject r @ '' Lab'', Subject r @ '' Theory'')) (filter Lab p))"
proof -
  from ds have "Subject r \<notin> Subject ` set p" by auto
  then have np: "\<And>x. x \<in> set p \<Longrightarrow> Subject x \<noteq> Subject r" by (metis imageI)
  from ds show "Subject r \<notin> Subject ` set s" by auto
  show "Subject r \<notin> spec_attr_key ` set p"
  proof
    assume "Subject r \<in> spec_attr_key ` set p"
    then obtain x where x: "x \<in> set p" and e: "Subject r = spec_attr_key x" by blast
    show False
    proof (cases "Lab x")
      case True
      with e have "Subject r = Subject x @ '' Theory''" by (simp add: spec_attr_key_def)
      moreover from nc x True have "Subject r \<noteq> Subject x @ '' Theory''" by simp
      ultimately show False by simp
    next
      case False
      with e have "Subject r = Subject x" by (simp add: spec_attr_key_def)
      with np[OF x] show False by simp
    qed
  qed
  show "Subject r @ '' Theory'' \<notin> spec_attr_key ` set p"
  proof
    assume "Subject r @ '' Theory'' \<in> spec_attr_key ` set p"
    then obtain x where x: "x \<in> set p" and e: "Subject r @ '' Theory'' = spec_attr_key x" by blast
    show False
    proof (cases "Lab x")
      case True
      with e have "Subject r = Subject x" by (simp add: spec_attr_key_def)
      with np[OF x] show False by simp
    next
      case False
      with e have "Subject x = Subject r @ '' Theory''" by (simp add: spec_attr_key_def)
      moreover from nc x lab have "Subject x \<noteq> Subject r @ '' Theory''" by simp
      ultimately show False by simp
    qed
  qed
  show "Subject r @ '' Lab''
           \<notin> fst ` set (map (\<lambda>r. (Subject r @ '' Lab'', Subject r @ '' Theory'')) (filter Lab p))"
  proof
    assume "Subject r @ '' Lab''
           \<in> fst ` set (map (\<lambda>r. (Subject r @ '' Lab'', Subject r @ '' Theory'')) (filter Lab p))"
    then obtain x where x: "x \<in> set p" and "Subject r @ '' Lab'' = Subject x @ '' Lab''"
      by auto
    then have "Subject x = Subject r" by simp
    with np[OF x] show False by simp
  qed
qed

lemma rows_inv_step:
  fixes p s :: "subject_row list"
  assumes ds: "distinct (map Subject (p @ r # s))"
    and nc: "\<forall>x\<in>set (p @ r # s). \<forall>y\<in>set (p @ r # s). Lab y \<longrightarrow>
               Subject x \<noteq> Subject y @ '' Theory'' \<and> Subject x \<noteq> Subject y @ '' Lab''"
    and cl: "map_of cl (Subject r) = Some (Lab r)"
    and inv: "rows_inv p (r # s) st"
  shows "\<exists>st'. init_subject cl (Subject r) st = Inr st' \<and> rows_inv (p @ [r]) s st'"
proof (cases "Lab r")
  case False
  with cl have "getitem cl (Subject r) = Inr False" by (simp add: getitem_def)
  then have 1: "init_subject cl (Subject r) st
      = Inr (st\<lparr>variables := variables st @ [Subject r]\<rparr>)"
    by (rule init_subject_plain)
  from inv have v: "variables st = concat (map spec_row_variables p)"
    and l: "laboratories st = map (\<lambda>r. (Subject r @ '' Lab'', Subject r @ '' Theory'')) (filter Lab p)"
    and a: "map_of (semesters st) = map_of (map (\<lambda>r. (spec_attr_key r, Semester r)) p
                                       @ map (\<lambda>r. (Subject r, Semester r)) (r # s))"
    and b: "map_of (professors st) = map_of (map (\<lambda>r. (spec_attr_key r, Professor r)) p
                                        @ map (\<lambda>r. (Subject r, Professor r)) (r # s))"
    and c: "map_of (difficulties st) = map_of (map (\<lambda>r. (spec_attr_key r, Difficult r)) p
                                          @ map (\<lambda>r. (Subject r, Difficult r)) (r # s))"
    unfolding rows_inv_def by blast+
  have "rows_inv (p @ [r]) s (st\<lparr>variables := variables st @ [Subject r]\<rparr>)"
    unfolding rows_inv_def
    using v l False plain_step[OF a False] plain_step[OF b False] plain_step[OF c False]
    by (simp add: spec_row_variables_def del: map_of_append)
  with 1 show ?thesis by blast
next
  case True
  with cl have g: "getitem cl (Subject r) = Inr True" by (simp add: getitem_def)
  from inv have v: "variables st = concat (map spec_row_variables p)"
    and l: "laboratories st = map (\<lambda>r. (Subject r @ '' Lab'', Subject r @ '' Theory'')) (filter Lab p)"
    and a: "map_of (semesters st) = map_of (map (\<lambda>r. (spec_attr_key r, Semester r)) p
                                       @ map (\<lambda>r. (Subject r, Semester r)) (r # s))"
    and b: "map_of (professors st) = map_of (map (\<lambda>r. (spec_attr_key r, Professor r)) p
                                        @ map (\<lambda>r. (Subject r, Professor r)) (r # s))"
    and c: "map_of (difficulties st) = map_of (map (\<lambda>r. (spec_attr_key r, Difficult r)) p
                                          @ map (\<lambda>r. (Subject r, Difficult r)) (r # s))"
    unfolding rows_inv_def by blast+
  note cf = collision_facts[OF ds nc True]
  have sa: "map_of (semesters st) (Subject r) = Some (Semester r)"
    using a cf(1) by (rule rekey_lookup)
  have sb: "map_of (professors st) (Subject r) = Some (Professor r)"
    using b cf(1) by (rule rekey_lookup)
  have sc: "map_of (difficulties st) (Subject r) = Some (Difficult r)"
    using c cf(1) by (rule rekey_lookup)
  let ?st' = "st\<lparr>variables := variables st @ [Subject r @ '' Theory'', Subject r @ '' Lab''],
      laboratories := AList.update (Subject r @ '' Lab'') (Subject r @ '' Theory'') (laboratories st),
      semesters := AList.update (Subject r @ '' Theory'') (Semester r)
                     (AList.delete (Subject r) (semesters st)),
      professors := AList.update (Subject r @ '' Theory'') (Professor r)
                     (AList.delete (Subject r) (professors st)),
      difficulties := AList.update (Subject r @ '' Theory'') (Difficult r)
                     (AList.delete (Subject r) (difficulties st))\<rparr>"
  have 1: "init_subject cl (Subject r) st = Inr ?st'"
    using g sa sb sc by (rule init_subject_split)
  have v': "variables ?st' = concat (map spec_row_variables (p @ [r]))"
    using v True by (simp add: spec_row_variables_def)
  have "Subject r @ '' Lab'' \<notin> fst ` set (laboratories st)"
    using cf(4) l by simp
  then have "AList.update (Subject r @ '' Lab'') (Subject r @ '' Theory'') (laboratories st)
      = laboratories st @ [(Subject r @ '' Lab'', Subject r @ '' Theory'')]"
    by (rule update_fresh)
  with l True have l': "laboratories ?st'
      = map (\<lambda>r. (Subject r @ '' Lab'', Subject r @ '' Theory'')) (filter Lab (p @ [r]))"
    by simp
  have a': "map_of (semesters ?st') = map_of (map (\<lambda>r. (spec_attr_key r, Semester r)) (p @ [r])
                                       @ map (\<lambda>r. (Subject r, Semester r)) s)"
    using rekey_step[OF a True cf(1) cf(2) cf(3)] by simp
  have b': "map_of (professors ?st') = map_of (map (\<lambda>r. (spec_attr_key r, Professor r)) (p @ [r])
                                       @ map (\<lambda>r. (Subject r, Professor r)) s)"
    using rekey_step[OF b True cf(1) cf(2) cf(3)] by simp
  have c': "map_of (difficulties ?st') = map_of (map (\<lambda>r. (spec_attr_key r, Difficult r)) (p @ [r])
                                       @ map (\<lambda>r. (Subject r, Difficult r)) s)"
    using rekey_step[OF c True cf(1) cf(2) cf(3)] by simp
  from v' l' a' b' c' have "rows_inv (p @ [r]) s ?st'"
    unfolding rows_inv_def by blast
  with 1 show ?thesis by blast
qed

lemma rows_inv_loop:
  fixes p s :: "subject_row list"
  assumes "distinct (map Subject (p @ s))"
    and "\<forall>x\<in>set (p @ s). \<forall>y\<in>set (p @ s). Lab y \<longrightarrow>
               Subject x \<noteq> Subject y @ '' Theory'' \<and> Subject x \<noteq> Subject y @ '' Lab''"
    and "\<forall>r\<in>set (p @ s). map_of cl (Subject r) = Some (Lab r)"
    and "rows_inv p s st"
  shows "\<exists>st'. init_subjects cl (map Subject s) st = Inr st' \<and> rows_inv (p @ s) [] st'"
  using assms
proof (induction s arbitrary: p st)
  case Nil
  then show ?case by simp
next
  case (Cons r s)
  from Cons.prems(3) have cl: "map_of cl (Subject r) = Some (Lab r)" by simp
  from rows_inv_step[OF Cons.prems(1) Cons.prems(2) cl Cons.prems(4)]
  obtain st1 where 1: "init_subject cl (Subject r) st = Inr st1"
    and 2: "rows_inv (p @ [r]) s st1" by blast
  have e: "(p @ [r]) @ s = p @ r # s" by simp
  from Cons.IH[of "p @ [r]" st1] Cons.prems(1,2,3) 2
  obtain st' where 3: "init_subjects cl (map Subject s) st1 = Inr st'"
    and 4: "rows_inv ((p @ [r]) @ s) [] st'"
    unfolding e by blast
  from 1 3 have "init_subjects cl (map Subject (r # s)) st = Inr st'" by simp
  with 4 e show ?case by auto
qed

lemma rows_inv_initial:
  fixes data :: "subject_row list"
  assumes "distinct (map Subject data)"
  shows "rows_inv [] data
       \<lparr>semesters = dict_zip (map Subject data) (map Semester data),
        professors = dict_zip (map Subject data) (map Professor data),
        difficulties = dict_zip (map Subject data) (map Difficult data),
        variables = [], laboratories = [], domains = [], neighbors = [], var_to_cons = []\<rparr>"
  unfolding rows_inv_def using assms by (simp add: map_of_dict_zip)

lemma check_lab_lookup:
  fixes data :: "subject_row list"
  assumes "distinct (map Subject data)" and "r \<in> set data"
  shows "map_of (dict_zip (map Subject data) (map Lab data)) (Subject r) = Some (Lab r)"
proof -
  have "distinct (map fst (map (\<lambda>r. (Subject r, Lab r)) data))"
    using assms(1) by (simp add: comp_def)
  moreover have "(Subject r, Lab r) \<in> set (map (\<lambda>r. (Subject r, Lab r)) data)"
    using assms(2) by auto
  ultimately have "map_of (map (\<lambda>r. (Subject r, Lab r)) data) (Subject r) = Some (Lab r)"
    by (rule map_of_is_SomeI)
  with assms(1) show ?thesis by (simp add: map_of_dict_zip)
qed

lemma attr_key_defined:
  fixes data :: "subject_row list"
  assumes "map_of m = map_of (map (\<lambda>r. (spec_attr_key r, f r)) data)" and "r \<in> set data"
  shows "map_of m (spec_attr_key r) \<noteq> None"
proof -
  from assms(2) have "spec_attr_key r \<in> fst ` set (map (\<lambda>r. (spec_attr_key r, f r)) data)"
    by (auto simp: image_comp comp_def)
  with assms(1) show ?thesis by (simp add: map_of_eq_None_iff)
qed

lemma Exams_init_collision_free:
  fixes data :: "subject_row list"
  assumes "distinct (all_names data)"
  shows "\<exists>self. Exams_init data = Inr self \<and> rows_inv data [] self"
proof -
  from assms have ds: "distinct (map Subject data)" by (rule all_names_distinct_subjects)
  have nc: "\<forall>x\<in>set ([] @ data). \<forall>y\<in>set ([] @ data). Lab y \<longrightarrow>
               Subject x \<noteq> Subject y @ '' Theory'' \<and> Subject x \<noteq> Subject y @ '' Lab''"
    using all_names_no_clash[OF assms] by simp
  let ?cl = "dict_zip (map Subject data) (map Lab data)"
  let ?self0 = "\<lparr>semesters = dict_zip (map Subject data) (map Semester data),
        professors = dict_zip (map Subject data) (map Professor data),
        difficulties = dict_zip (map Subject data) (map Difficult data),
        variables = [], laboratories = [], domains = [], neighbors = [], var_to_cons = []\<rparr>"
  have cl: "\<forall>r\<in>set ([] @ data). map_of ?cl (Subject r) = Some (Lab r)"
    using check_lab_lookup[OF ds] by simp
  have ds': "distinct (map Subject ([] @ data))" using ds by simp
  from rows_inv_loop[OF ds' nc cl rows_inv_initial[OF ds]]
  obtain self1 where 1: "init_subjects ?cl (map Subject data) ?self0 = Inr self1"
    and inv: "rows_inv data [] self1" by auto
  from inv have v: "variables self1 = concat (map spec_row_variables data)"
    and l: "laboratories self1
        = map (\<lambda>r. (Subject r @ '' Lab'', Subject r @ '' Theory'')) (filter Lab data)"
    and d: "map_of (difficulties self1) = map_of (map (\<lambda>r. (spec_attr_key r, Difficult r)) data)"
    unfolding rows_inv_def by simp_all
  let ?self2 = "self1\<lparr>domains := dict_comp (variables self1) (\<lambda>var. full_domain),
              neighbors := dict_comp (variables self1)
                 (\<lambda>var. filter (\<lambda>sub. sub \<noteq> var) (variables self1)),
              var_to_cons := dict_comp (variables self1) (\<lambda>var. [SlotC])\<rparr>"
  have ok: "map_of (var_to_cons ?self2) w \<noteq> None
       \<and> (w \<notin> set (dict_keys (laboratories ?self2)) \<longrightarrow> map_of (difficulties ?self2) w \<noteq> None)"
    if w: "w \<in> set (variables self1)" for w
  proof -
    from w have a: "map_of (var_to_cons ?self2) w \<noteq> None"
      by (simp add: map_of_dict_comp)
    from w v obtain r where r: "r \<in> set data" and wr: "w \<in> set (spec_row_variables r)"
      by auto
    have b: "map_of (difficulties self1) w \<noteq> None" if "w \<notin> set (dict_keys (laboratories self1))"
    proof (cases "Lab r")
      case False
      with wr have "w = spec_attr_key r"
        by (simp add: spec_row_variables_def spec_attr_key_def)
      with attr_key_defined[OF d r] show ?thesis by simp
    next
      case True
      with r l have "Subject r @ '' Lab'' \<in> set (dict_keys (laboratories self1))"
        by (auto simp: dict_keys_def image_comp comp_def)
      with that have "w \<noteq> Subject r @ '' Lab''" by blast
      with wr True have "w = spec_attr_key r"
        by (simp add: spec_row_variables_def spec_attr_key_def)
      with attr_key_defined[OF d r] show ?thesis by simp
    qed
    from a b show ?thesis by simp
  qed
  then have "\<forall>w\<in>set (variables self1). map_of (var_to_cons ?self2) w \<noteq> None
       \<and> (w \<notin> set (dict_keys (laboratories ?self2)) \<longrightarrow> map_of (difficulties ?self2) w \<noteq> None)"
    by blast
  then obtain self where 2: "init_vars_cons (variables self1) ?self2 = Inr self"
    using init_vars_cons_succeeds by blast
  from 1 2 have 3: "Exams_init data = Inr self"
    by (simp add: Exams_init_def Let_def)
  from init_vars_cons_fields[OF 2] inv have "rows_inv data [] self"
    by (simp add: rows_inv_def)
  with 3 show ?thesis by blast
qed

lemma vars_subset_all_names:
  fixes data :: "subject_row list"
  shows "set (concat (map spec_row_variables data)) \<subseteq> set (all_names data)"
  by (induction data) (auto simp: all_names_def spec_row_variables_def)

lemma distinct_all_names_Cons:
  fixes data :: "subject_row list"
  assumes "distinct (all_names (r # data))"
  shows "distinct (all_names data)"
    and "Subject r \<notin> set (all_names data)"
    and "Lab r \<Longrightarrow> Subject r @ '' Theory'' \<notin> set (all_names data)"
    and "Lab r \<Longrightarrow> Subject r @ '' Lab'' \<notin> set (all_names data)"
  using assms by (auto simp: all_names_def)

lemma distinct_spec_variables:
  fixes data :: "subject_row list"
  shows "distinct (all_names data) \<Longrightarrow> distinct (concat (map spec_row_variables data))"
proof (induction data)
  case Nil
  show ?case by simp
next
  case (Cons r data)
  note f = distinct_all_names_Cons[OF Cons.prems]
  from Cons.IH[OF f(1)] have ih: "distinct (concat (map spec_row_variables data))" .
  have sub: "set (concat (map spec_row_variables data)) \<subseteq> set (all_names data)"
    by (rule vars_subset_all_names)
  show ?case
  proof (cases "Lab r")
    case False
    with f(2) sub have "Subject r \<notin> set (concat (map spec_row_variables data))" by blast
    moreover from False have "spec_row_variables r = [Subject r]"
      by (simp add: spec_row_variables_def)
    ultimately show ?thesis using ih by simp
  next
    case True
    from f(3)[OF True] sub
    have 1: "Subject r @ '' Theory'' \<notin> set (concat (map spec_row_variables data))" by blast
    from f(4)[OF True] sub
    have 2: "Subject r @ '' Lab'' \<notin> set (concat (map spec_row_variables data))" by blast
    have 3: "Subject r @ '' Theory'' \<noteq> Subject r @ '' Lab''" by simp
    from True have "spec_row_variables r = [Subject r @ '' Theory'', Subject r @ '' Lab'']"
      by (simp add: spec_row_variables_def)
    with ih 1 2 3 show ?thesis by simp
  qed
qed

lemma attr_key_not_lab_name:
  fixes data :: "subject_row list"
  assumes "distinct (all_names data)" and "x \<in> set data" and "r \<in> set data" and "Lab r"
  shows "spec_attr_key x \<noteq> Subject r @ '' Lab''"
proof (cases "Lab x")
  case True
  then have "spec_attr_key x = Subject x @ '' Theory''" by (simp add: spec_attr_key_def)
  with Lab_not_Theory[of "Subject r" "Subject x"] show ?thesis by simp
next
  case False
  then have "spec_attr_key x = Subject x" by (simp add: spec_attr_key_def)
  with all_names_no_clash(2)[OF assms] show ?thesis by simp
qed

lemma same_subject_same_row:
  fixes data :: "subject_row list"
  assumes "distinct (map Subject data)" and "x \<in> set data" and "r \<in> set data"
    and "Subject x = Subject r"
  shows "x = r"
proof -
  from assms(1) have "inj_on Subject (set data)" by (simp add: distinct_map)
  with assms(2,3,4) show ?thesis by (simp add: inj_on_def)
qed

lemma attr_key_not_split_name:
  fixes data :: "subject_row list"
  assumes "distinct (all_names data)" and "x \<in> set data" and "r \<in> set data" and "Lab r"
  shows "spec_attr_key x \<noteq> Subject r"
proof (cases "Lab x")
  case True
  then have "spec_attr_key x = Subject x @ '' Theory''" by (simp add: spec_attr_key_def)
  with all_names_no_clash(1)[OF assms(1) assms(3) assms(2) True] show ?thesis by simp
next
  case False
  then have k: "spec_attr_key x = Subject x" by (simp add: spec_attr_key_def)
  show ?thesis
  proof
    assume "spec_attr_key x = Subject r"
    with k have "Subject x = Subject r" by simp
    with all_names_distinct_subjects[OF assms(1)] assms(2,3) have "x = r"
      by (rule same_subject_same_row)
    with False assms(4) show False by simp
  qed
qed

lemma attr_key_inj:
  fixes data :: "subject_row list"
  assumes "distinct (all_names data)" and "x \<in> set data" and "r \<in> set data"
    and "spec_attr_key x = spec_attr_key r"
  shows "x = r"
proof -
  note ds = all_names_distinct_subjects[OF assms(1)]
  show ?thesis
  proof (cases "Lab x")
    case lx: True
    show ?thesis
    proof (cases "Lab r")
      case True
      with lx assms(4) have "Subject x = Subject r" by (simp add: spec_attr_key_def)
      with ds assms(2,3) show ?thesis by (rule same_subject_same_row)
    next
      case False
      with lx assms(4) have "Subject r = Subject x @ '' Theory''" by (simp add: spec_attr_key_def)
      with all_names_no_clash(1)[OF assms(1) assms(3) assms(2) lx] show ?thesis by simp
    qed
  next
    case nx: False
    show ?thesis
    proof (cases "Lab r")
      case True
      with nx assms(4) have "Subject x = Subject r @ '' Theory''" by (simp add: spec_attr_key_def)
      with all_names_no_clash(1)[OF assms(1) assms(2) assms(3) True] show ?thesis by simp
    next
      case False
      with nx assms(4) have "Subject x = Subject r" by (simp add: spec_attr_key_def)
      with ds assms(2,3) show ?thesis by (rule same_subject_same_row)
    qed
  qed
qed

lemma inj_on_lookup:
  assumes "inj_on k (set xs)" and "r \<in> set xs"
  shows "map_of (map (\<lambda>r. (k r, f r)) xs) (k r) = Some (f r)"
  using assms
proof (induction xs)
  case Nil
  then show ?case by simp
next
  case (Cons x xs)
  show ?case
  proof (cases "x = r")
    case True
    then show ?thesis by simp
  next
    case False
    with Cons.prems have "r \<in> set xs" and "inj_on k (set xs)" and "k x \<noteq> k r"
      by (auto simp: inj_on_def)
    with Cons.IH show ?thesis by simp
  qed
qed

lemma attr_lookup:
  fixes data :: "subject_row list"
  assumes "distinct (all_names data)" and "r \<in> set data"
    and "map_of m = map_of (map (\<lambda>r. (spec_attr_key r, f r)) data)"
  shows "map_of m (spec_attr_key r) = Some (f r)"
proof -
  have "inj_on spec_attr_key (set data)"
    using attr_key_inj[OF assms(1)] by (auto simp: inj_on_def)
  from inj_on_lookup[OF this assms(2), of f] assms(3) show ?thesis by simp
qed

lemma attr_missing:
  fixes data :: "subject_row list"
  assumes "k \<notin> spec_attr_key ` set data"
    and "map_of m = map_of (map (\<lambda>r. (spec_attr_key r, f r)) data)"
  shows "map_of m k = None"
proof -
  have "fst ` set (map (\<lambda>r. (spec_attr_key r, f r)) data) = spec_attr_key ` set data"
    by (simp add: image_comp comp_def)
  with assms show ?thesis by (simp add: map_of_eq_None_iff)
qed

lemma attr_keys_set:
  fixes data :: "subject_row list"
  assumes "map_of m = map_of (map (\<lambda>r. (spec_attr_key r, f r)) data)"
  shows "set (dict_keys m) = spec_attr_key ` set data"
proof -
  have "set (dict_keys m) = dom (map_of m)" by (simp add: dict_keys_def dom_map_of_conv_image_fst)
  also have "\<dots> = dom (map_of (map (\<lambda>r. (spec_attr_key r, f r)) data))" using assms by simp
  also have "\<dots> = spec_attr_key ` set data"
    by (simp add: dom_map_of_conv_image_fst image_comp comp_def)
  finally show ?thesis .
qed

lemma lab_lookup:
  fixes data :: "subject_row list"
  assumes "distinct (map Subject data)" and "r \<in> set data" and "Lab r"
  shows "map_of (map (\<lambda>r. (Subject r @ '' Lab'', Subject r @ '' Theory'')) (filter Lab data))
           (Subject r @ '' Lab'') = Some (Subject r @ '' Theory'')"
proof -
  from assms(1) have "inj_on Subject (set data)" by (simp add: distinct_map)
  then have "inj_on (\<lambda>r. Subject r @ '' Lab'') (set (filter Lab data))"
    by (auto simp: inj_on_def)
  moreover from assms(2,3) have "r \<in> set (filter Lab data)" by simp
  ultimately show ?thesis by (rule inj_on_lookup)
qed

lemma scenario_collision_free: "distinct (all_names scenario)"
  by (simp add: all_names_def scenario_def)

text \<open>
  Claim C3, as the code has it. The builder does not check names. When the subject names
  and the Theory and Lab names generated from the subjects with a lab are pairwise
  distinct, the builder succeeds and the variable names are unique.
\<close>

theorem collision_free_unique_variables:
  fixes data :: "subject_row list"
  assumes "distinct (all_names data)"
  shows "\<exists>self. Exams_init data = Inr self \<and> distinct (variables self)"
proof -
  from assms obtain self where 1: "Exams_init data = Inr self" and 2: "rows_inv data [] self"
    using Exams_init_collision_free by blast
  from 2 have "variables self = concat (map spec_row_variables data)"
    by (simp add: rows_inv_def)
  with distinct_spec_variables[OF assms] have "distinct (variables self)" by simp
  with 1 show ?thesis by blast
qed

theorem collision_free_unique_variables_witness:
  "distinct (all_names scenario) \<and> Exams_init scenario = Inr scenario_exams
   \<and> distinct (variables scenario_exams)"
proof -
  from collision_free_unique_variables[OF scenario_collision_free]
  obtain self where "Exams_init scenario = Inr self" and d: "distinct (variables self)" by blast
  with scenario_built have "self = scenario_exams" by simp
  with d scenario_collision_free scenario_built show ?thesis by simp
qed

theorem duplicate_subject_counterexample:
  "map_sum id variables (Exams_init two_histories) = Inr [''History'', ''History'']
   \<and> \<not> distinct [''History'', ''History'']"
  unfolding two_histories_def by code_simp

lemma collision_free_row:
  fixes data :: "subject_row list"
  assumes cf: "distinct (all_names data)" and inv: "rows_inv data [] self" and r: "r \<in> set data"
  shows "map_of (semesters self) (spec_attr_key r) = Some (Semester r)"
    and "map_of (professors self) (spec_attr_key r) = Some (Professor r)"
    and "map_of (difficulties self) (spec_attr_key r) = Some (Difficult r)"
    and "Lab r \<Longrightarrow> map_of (laboratories self) (Subject r @ '' Lab'') = Some (Subject r @ '' Theory'')"
    and "Lab r \<Longrightarrow> map_of (semesters self) (Subject r @ '' Lab'') = None
                  \<and> map_of (professors self) (Subject r @ '' Lab'') = None
                  \<and> map_of (difficulties self) (Subject r @ '' Lab'') = None"
    and "Lab r \<Longrightarrow> map_of (semesters self) (Subject r) = None
                  \<and> map_of (professors self) (Subject r) = None
                  \<and> map_of (difficulties self) (Subject r) = None"
proof -
  from inv have l: "laboratories self
        = map (\<lambda>r. (Subject r @ '' Lab'', Subject r @ '' Theory'')) (filter Lab data)"
    and a: "map_of (semesters self) = map_of (map (\<lambda>r. (spec_attr_key r, Semester r)) data)"
    and b: "map_of (professors self) = map_of (map (\<lambda>r. (spec_attr_key r, Professor r)) data)"
    and c: "map_of (difficulties self) = map_of (map (\<lambda>r. (spec_attr_key r, Difficult r)) data)"
    unfolding rows_inv_def by simp_all
  from cf r a show "map_of (semesters self) (spec_attr_key r) = Some (Semester r)"
    by (rule attr_lookup)
  from cf r b show "map_of (professors self) (spec_attr_key r) = Some (Professor r)"
    by (rule attr_lookup)
  from cf r c show "map_of (difficulties self) (spec_attr_key r) = Some (Difficult r)"
    by (rule attr_lookup)
  show "map_of (laboratories self) (Subject r @ '' Lab'') = Some (Subject r @ '' Theory'')"
    if "Lab r"
    using lab_lookup[OF all_names_distinct_subjects[OF cf] r that] l by simp
  show "map_of (semesters self) (Subject r @ '' Lab'') = None
                  \<and> map_of (professors self) (Subject r @ '' Lab'') = None
                  \<and> map_of (difficulties self) (Subject r @ '' Lab'') = None" if "Lab r"
  proof -
    have "Subject r @ '' Lab'' \<notin> spec_attr_key ` set data"
    proof
      assume "Subject r @ '' Lab'' \<in> spec_attr_key ` set data"
      then obtain x where "x \<in> set data" and "Subject r @ '' Lab'' = spec_attr_key x"
        by (rule imageE)
      with attr_key_not_lab_name[OF cf _ r that, of x] show False by simp
    qed
    then show ?thesis using a b c by (simp add: attr_missing)
  qed
  show "map_of (semesters self) (Subject r) = None
                  \<and> map_of (professors self) (Subject r) = None
                  \<and> map_of (difficulties self) (Subject r) = None" if "Lab r"
  proof -
    have "Subject r \<notin> spec_attr_key ` set data"
    proof
      assume "Subject r \<in> spec_attr_key ` set data"
      then obtain x where "x \<in> set data" and "Subject r = spec_attr_key x"
        by (rule imageE)
      with attr_key_not_split_name[OF cf _ r that, of x] show False by simp
    qed
    then show ?thesis using a b c by (simp add: attr_missing)
  qed
qed

text \<open>
  Claim C6, as the code has it. For every table whose subject names and generated Theory
  and Lab names are pairwise distinct, the builder succeeds; its variable list is, row
  by row in input order, the subject's name for a row without a lab and the Theory name
  followed by the Lab name for a row with a lab; a row without a lab has its semester,
  professor and difficulty under its name; a row with a lab has the lab relation from its
  Lab name to its Theory name, its three attributes under the Theory name, and no
  attribute under the Lab name or under the subject's own name; every variable has the
  domain of the 63 pairs of a day below 21 and a slot below 3.
\<close>

theorem builder_output:
  fixes data :: "subject_row list"
  assumes "distinct (all_names data)"
  shows "\<exists>self. Exams_init data = Inr self
     \<and> variables self =
         concat (map (\<lambda>r. if Lab r then [Subject r @ '' Theory'', Subject r @ '' Lab'']
                           else [Subject r]) data)
     \<and> (\<forall>r\<in>set data.
          if Lab r then
            map_of (laboratories self) (Subject r @ '' Lab'') = Some (Subject r @ '' Theory'')
            \<and> map_of (semesters self) (Subject r @ '' Theory'') = Some (Semester r)
            \<and> map_of (professors self) (Subject r @ '' Theory'') = Some (Professor r)
            \<and> map_of (difficulties self) (Subject r @ '' Theory'') = Some (Difficult r)
            \<and> map_of (semesters self) (Subject r @ '' Lab'') = None
            \<and> map_of (professors self) (Subject r @ '' Lab'') = None
            \<and> map_of (difficulties self) (Subject r @ '' Lab'') = None
            \<and> map_of (semesters self) (Subject r) = None
            \<and> map_of (professors self) (Subject r) = None
            \<and> map_of (difficulties self) (Subject r) = None
          else
            map_of (semesters self) (Subject r) = Some (Semester r)
            \<and> map_of (professors self) (Subject r) = Some (Professor r)
            \<and> map_of (difficulties self) (Subject r) = Some (Difficult r))
     \<and> (\<forall>v\<in>set (variables self). map_of (domains self) v = Some full_domain)
     \<and> length full_domain = 63
     \<and> set full_domain = {0..20} \<times> {0..2}"
proof -
  from assms obtain self where 1: "Exams_init data = Inr self" and inv: "rows_inv data [] self"
    using Exams_init_collision_free by blast
  from inv have "variables self = concat (map spec_row_variables data)"
    by (simp add: rows_inv_def)
  also have "spec_row_variables = (\<lambda>r. if Lab r then [Subject r @ '' Theory'', Subject r @ '' Lab'']
                           else [Subject r])"
    by (rule ext) (simp add: spec_row_variables_def)
  finally have 2: "variables self =
         concat (map (\<lambda>r. if Lab r then [Subject r @ '' Theory'', Subject r @ '' Lab'']
                           else [Subject r]) data)" .
  have 3: "if Lab r then
            map_of (laboratories self) (Subject r @ '' Lab'') = Some (Subject r @ '' Theory'')
            \<and> map_of (semesters self) (Subject r @ '' Theory'') = Some (Semester r)
            \<and> map_of (professors self) (Subject r @ '' Theory'') = Some (Professor r)
            \<and> map_of (difficulties self) (Subject r @ '' Theory'') = Some (Difficult r)
            \<and> map_of (semesters self) (Subject r @ '' Lab'') = None
            \<and> map_of (professors self) (Subject r @ '' Lab'') = None
            \<and> map_of (difficulties self) (Subject r @ '' Lab'') = None
            \<and> map_of (semesters self) (Subject r) = None
            \<and> map_of (professors self) (Subject r) = None
            \<and> map_of (difficulties self) (Subject r) = None
          else
            map_of (semesters self) (Subject r) = Some (Semester r)
            \<and> map_of (professors self) (Subject r) = Some (Professor r)
            \<and> map_of (difficulties self) (Subject r) = Some (Difficult r)"
    (is "?row r") if r: "r \<in> set data" for r
  proof (cases "Lab r")
    case True
    then have k: "spec_attr_key r = Subject r @ '' Theory''" by (simp add: spec_attr_key_def)
    note f = collision_free_row[OF assms inv r]
    from True f(1)[unfolded k] f(2)[unfolded k] f(3)[unfolded k] f(4)[OF True] f(5)[OF True]
      f(6)[OF True]
    show ?thesis by simp
  next
    case False
    then have k: "spec_attr_key r = Subject r" by (simp add: spec_attr_key_def)
    note f = collision_free_row[OF assms inv r]
    from False f(1)[unfolded k] f(2)[unfolded k] f(3)[unfolded k] show ?thesis by simp
  qed
  have 4: "\<forall>v\<in>set (variables self). map_of (domains self) v = Some full_domain"
    using 1 by (simp add: Exams_init_domains)
  have rows: "\<forall>r\<in>set data. ?row r" by (rule ballI) (rule 3)
  from 1 2 rows 4 length_full_domain set_full_domain show ?thesis
    by (intro exI[of _ self] conjI) assumption+
qed

theorem builder_output_witness:
  "distinct (all_names scenario) \<and> Exams_init scenario = Inr scenario_exams
   \<and> variables scenario_exams = [''Algorithms Theory'', ''Algorithms Lab'', ''History'']"
proof -
  from builder_output[OF scenario_collision_free]
  obtain self where 1: "Exams_init scenario = Inr self"
    and 2: "variables self =
         concat (map (\<lambda>r. if Lab r then [Subject r @ '' Theory'', Subject r @ '' Lab'']
                           else [Subject r]) scenario)"
    by (elim exE conjE)
  from 1 scenario_built have "self = scenario_exams" by simp
  with 2 have "variables scenario_exams = [''Algorithms Theory'', ''Algorithms Lab'', ''History'']"
    by (simp add: scenario_def)
  with scenario_collision_free scenario_built show ?thesis by simp
qed

theorem builder_output_counterexample:
  "Lab (hd mixed_flags)
   \<and> map_sum id (\<lambda>self. (variables self, laboratories self)) (Exams_init mixed_flags)
       = Inr ([''Algorithms'', ''Algorithms''], [])"
  unfolding mixed_flags_def by code_simp

lemma non_lab_variables:
  fixes data :: "subject_row list"
  assumes cf: "distinct (all_names data)" and inv: "rows_inv data [] self"
  shows "set (variables self) - set (dict_keys (laboratories self)) = spec_attr_key ` set data"
proof -
  from inv have v: "variables self = concat (map spec_row_variables data)"
    and l: "laboratories self
        = map (\<lambda>r. (Subject r @ '' Lab'', Subject r @ '' Theory'')) (filter Lab data)"
    unfolding rows_inv_def by simp_all
  have keys: "set (dict_keys (laboratories self)) = (\<lambda>r. Subject r @ '' Lab'') ` set (filter Lab data)"
    unfolding l dict_keys_def by (simp add: image_comp comp_def)
  show ?thesis
  proof (intro equalityI subsetI)
    fix w
    assume w: "w \<in> set (variables self) - set (dict_keys (laboratories self))"
    with v obtain r where r: "r \<in> set data" and wr: "w \<in> set (spec_row_variables r)"
      by auto
    have "w = spec_attr_key r"
    proof (cases "Lab r")
      case False
      with wr show ?thesis by (simp add: spec_row_variables_def spec_attr_key_def)
    next
      case True
      with r have "Subject r @ '' Lab'' \<in> set (dict_keys (laboratories self))"
        unfolding keys by simp
      with w have "w \<noteq> Subject r @ '' Lab''" by blast
      with wr True show ?thesis by (simp add: spec_row_variables_def spec_attr_key_def)
    qed
    with r show "w \<in> spec_attr_key ` set data" by simp
  next
    fix w
    assume "w \<in> spec_attr_key ` set data"
    then obtain r where r: "r \<in> set data" and w: "w = spec_attr_key r" by (rule imageE)
    have "spec_attr_key r \<in> set (spec_row_variables r)"
      by (simp add: spec_row_variables_def spec_attr_key_def)
    with r v have 1: "spec_attr_key r \<in> set (variables self)" by auto
    have 2: "spec_attr_key r \<notin> set (dict_keys (laboratories self))"
    proof
      assume "spec_attr_key r \<in> set (dict_keys (laboratories self))"
      then obtain x where "x \<in> set (filter Lab data)" and "spec_attr_key r = Subject x @ '' Lab''"
        unfolding keys by (rule imageE)
      with attr_key_not_lab_name[OF cf r, of x] show False by simp
    qed
    from 1 2 w show "w \<in> set (variables self) - set (dict_keys (laboratories self))" by simp
  qed
qed

text \<open>
  Claim C10, as the code has it. For every table whose subject names and generated Theory
  and Lab names are pairwise distinct, the builder succeeds and the keys of each of the
  three attribute dicts are exactly the variables that are not Lab variables; for a
  subject with a lab, a lookup of its Lab name or of its own name in any of the three
  dicts raises \<^verbatim>\<open>KeyError\<close>.
\<close>

theorem attribute_keys:
  fixes data :: "subject_row list"
  assumes "distinct (all_names data)"
  shows "\<exists>self. Exams_init data = Inr self
     \<and> set (dict_keys (semesters self))
         = set (variables self) - set (dict_keys (laboratories self))
     \<and> set (dict_keys (professors self))
         = set (variables self) - set (dict_keys (laboratories self))
     \<and> set (dict_keys (difficulties self))
         = set (variables self) - set (dict_keys (laboratories self))
     \<and> (\<forall>r\<in>set data. Lab r \<longrightarrow>
           getitem (semesters self) (Subject r @ '' Lab'') = Inl KeyError
           \<and> getitem (professors self) (Subject r @ '' Lab'') = Inl KeyError
           \<and> getitem (difficulties self) (Subject r @ '' Lab'') = Inl KeyError
           \<and> getitem (semesters self) (Subject r) = Inl KeyError
           \<and> getitem (professors self) (Subject r) = Inl KeyError
           \<and> getitem (difficulties self) (Subject r) = Inl KeyError)"
proof -
  from assms obtain self where 1: "Exams_init data = Inr self" and inv: "rows_inv data [] self"
    using Exams_init_collision_free by blast
  from inv have a: "map_of (semesters self) = map_of (map (\<lambda>r. (spec_attr_key r, Semester r)) data)"
    and b: "map_of (professors self) = map_of (map (\<lambda>r. (spec_attr_key r, Professor r)) data)"
    and c: "map_of (difficulties self) = map_of (map (\<lambda>r. (spec_attr_key r, Difficult r)) data)"
    unfolding rows_inv_def by simp_all
  note nl = non_lab_variables[OF assms inv]
  have 2: "set (dict_keys (semesters self))
         = set (variables self) - set (dict_keys (laboratories self))"
    using attr_keys_set[OF a] nl by simp
  have 3: "set (dict_keys (professors self))
         = set (variables self) - set (dict_keys (laboratories self))"
    using attr_keys_set[OF b] nl by simp
  have 4: "set (dict_keys (difficulties self))
         = set (variables self) - set (dict_keys (laboratories self))"
    using attr_keys_set[OF c] nl by simp
  have 5: "Lab r \<longrightarrow>
           getitem (semesters self) (Subject r @ '' Lab'') = Inl KeyError
           \<and> getitem (professors self) (Subject r @ '' Lab'') = Inl KeyError
           \<and> getitem (difficulties self) (Subject r @ '' Lab'') = Inl KeyError
           \<and> getitem (semesters self) (Subject r) = Inl KeyError
           \<and> getitem (professors self) (Subject r) = Inl KeyError
           \<and> getitem (difficulties self) (Subject r) = Inl KeyError"
    (is "?row r") if r: "r \<in> set data" for r
  proof
    assume lab: "Lab r"
    from collision_free_row(5)[OF assms inv r lab] collision_free_row(6)[OF assms inv r lab]
    show "getitem (semesters self) (Subject r @ '' Lab'') = Inl KeyError
           \<and> getitem (professors self) (Subject r @ '' Lab'') = Inl KeyError
           \<and> getitem (difficulties self) (Subject r @ '' Lab'') = Inl KeyError
           \<and> getitem (semesters self) (Subject r) = Inl KeyError
           \<and> getitem (professors self) (Subject r) = Inl KeyError
           \<and> getitem (difficulties self) (Subject r) = Inl KeyError"
      by (simp add: getitem_def)
  qed
  have rows: "\<forall>r\<in>set data. ?row r" by (rule ballI) (rule 5)
  from 1 2 3 4 rows show ?thesis
    by (intro exI[of _ self] conjI) assumption+
qed

theorem attribute_keys_witness:
  "distinct (all_names scenario) \<and> Exams_init scenario = Inr scenario_exams
   \<and> set (dict_keys (semesters scenario_exams)) = {''History'', ''Algorithms Theory''}
   \<and> set (variables scenario_exams) - set (dict_keys (laboratories scenario_exams))
       = {''History'', ''Algorithms Theory''}"
proof -
  from attribute_keys[OF scenario_collision_free]
  obtain self where 1: "Exams_init scenario = Inr self"
    and 2: "set (dict_keys (semesters self))
         = set (variables self) - set (dict_keys (laboratories self))"
    by (elim exE conjE)
  from 1 scenario_built have e: "self = scenario_exams" by simp
  have "set (dict_keys (semesters scenario_exams)) = {''History'', ''Algorithms Theory''}"
    by (simp add: scenario_exams_def dict_keys_def)
  with 2 e scenario_collision_free scenario_built show ?thesis by simp
qed

theorem attribute_keys_counterexample:
  "Lab (lab_named_subject ! 1) \<and> Subject (lab_named_subject ! 1) = ''Algorithms''
   \<and> map_sum id (\<lambda>self. (variables self, dict_keys (laboratories self), dict_keys (semesters self)))
        (Exams_init lab_named_subject)
       = Inr ([''Algorithms Lab'', ''Algorithms Theory'', ''Algorithms Lab''],
              [''Algorithms Lab''],
              [''Algorithms Lab'', ''Algorithms Theory''])"
  unfolding lab_named_subject_def by code_simp













lemma count_list_distinct: "distinct xs \<Longrightarrow> v \<in> set xs \<Longrightarrow> count_list xs v = 1"
proof (induction xs)
  case Nil
  then show ?case by simp
next
  case (Cons x xs)
  show ?case
  proof (cases "x = v")
    case True
    with Cons.prems(1) have "v \<notin> set xs" by simp
    then have "count_list xs v = 0" by (simp add: count_list_0_iff)
    with True show ?thesis by simp
  next
    case False
    with Cons show ?thesis by simp
  qed
qed

lemma collision_free_labs:
  fixes data :: "subject_row list"
  assumes "rows_inv data [] self"
  shows "set (dict_keys (laboratories self)) = (\<lambda>r. Subject r @ '' Lab'') ` set (filter Lab data)"
    and "set (dict_values (laboratories self))
           = (\<lambda>r. Subject r @ '' Theory'') ` set (filter Lab data)"
proof -
  from assms have l: "laboratories self
        = map (\<lambda>r. (Subject r @ '' Lab'', Subject r @ '' Theory'')) (filter Lab data)"
    unfolding rows_inv_def by simp
  show "set (dict_keys (laboratories self)) = (\<lambda>r. Subject r @ '' Lab'') ` set (filter Lab data)"
    unfolding l dict_keys_def by (simp add: image_comp comp_def)
  show "set (dict_values (laboratories self))
           = (\<lambda>r. Subject r @ '' Theory'') ` set (filter Lab data)"
    unfolding l dict_values_def by (simp add: image_comp comp_def)
qed

lemma collision_free_list_of:
  fixes data :: "subject_row list"
  assumes cf: "distinct (all_names data)" and built: "Exams_init data = Inr self"
    and inv: "rows_inv data [] self" and v: "v \<in> set (variables self)"
  shows "map_of (var_to_cons self) v = Some (SlotC # cons_added self v)"
proof -
  from inv have "variables self = concat (map spec_row_variables data)"
    by (simp add: rows_inv_def)
  with distinct_spec_variables[OF cf] have "distinct (variables self)" by simp
  from count_list_distinct[OF this v] v built show ?thesis
    by (simp add: Exams_init_var_to_cons)
qed

lemma collision_free_plain_list:
  fixes data :: "subject_row list"
  assumes cf: "distinct (all_names data)" and built: "Exams_init data = Inr self"
    and inv: "rows_inv data [] self" and r: "r \<in> set data" and plain: "\<not> Lab r"
  shows "map_of (var_to_cons self) (Subject r)
           = Some ([SlotC, SemesterC, ProfessorC] @ (if Difficult r then [DifficultyC] else []))"
proof -
  from inv have vs: "variables self = concat (map spec_row_variables data)"
    by (simp add: rows_inv_def)
  from plain have "Subject r \<in> set (spec_row_variables r)" by (simp add: spec_row_variables_def)
  with r vs have v: "Subject r \<in> set (variables self)" by auto
  have nk: "Subject r \<notin> set (dict_keys (laboratories self))"
  proof
    assume "Subject r \<in> set (dict_keys (laboratories self))"
    then obtain x where "x \<in> set (filter Lab data)" and "Subject r = Subject x @ '' Lab''"
      unfolding collision_free_labs(1)[OF inv] by (rule imageE)
    with all_names_no_clash(2)[OF cf r, of x] show False by simp
  qed
  have nv: "Subject r \<notin> set (dict_values (laboratories self))"
  proof
    assume "Subject r \<in> set (dict_values (laboratories self))"
    then obtain x where "x \<in> set (filter Lab data)" and "Subject r = Subject x @ '' Theory''"
      unfolding collision_free_labs(2)[OF inv] by (rule imageE)
    with all_names_no_clash(1)[OF cf r, of x] show False by simp
  qed
  from plain have k: "spec_attr_key r = Subject r" by (simp add: spec_attr_key_def)
  from collision_free_row(3)[OF cf inv r] k
  have d: "map_of (difficulties self) (Subject r) = Some (Difficult r)" by simp
  from nk nv d have "cons_added self (Subject r)
      = [SemesterC, ProfessorC] @ (if Difficult r then [DifficultyC] else [])"
    by (simp add: cons_added_def)
  with collision_free_list_of[OF cf built inv v] show ?thesis by simp
qed

lemma collision_free_theory_list:
  fixes data :: "subject_row list"
  assumes cf: "distinct (all_names data)" and built: "Exams_init data = Inr self"
    and inv: "rows_inv data [] self" and r: "r \<in> set data" and lab: "Lab r"
  shows "map_of (var_to_cons self) (Subject r @ '' Theory'')
           = Some ([SlotC, LabC, SemesterC, ProfessorC]
                   @ (if Difficult r then [DifficultyC] else []))"
proof -
  from inv have vs: "variables self = concat (map spec_row_variables data)"
    by (simp add: rows_inv_def)
  from lab have "Subject r @ '' Theory'' \<in> set (spec_row_variables r)"
    by (simp add: spec_row_variables_def)
  with r vs have v: "Subject r @ '' Theory'' \<in> set (variables self)" by auto
  have nk: "Subject r @ '' Theory'' \<notin> set (dict_keys (laboratories self))"
  proof
    assume "Subject r @ '' Theory'' \<in> set (dict_keys (laboratories self))"
    then obtain x where "x \<in> set (filter Lab data)"
      and "Subject r @ '' Theory'' = Subject x @ '' Lab''"
      unfolding collision_free_labs(1)[OF inv] by (rule imageE)
    with Lab_not_Theory[of "Subject x" "Subject r"] show False by simp
  qed
  from r lab have "r \<in> set (filter Lab data)" by simp
  then have iv: "Subject r @ '' Theory'' \<in> set (dict_values (laboratories self))"
    unfolding collision_free_labs(2)[OF inv] by (rule imageI)
  from lab have k: "spec_attr_key r = Subject r @ '' Theory''" by (simp add: spec_attr_key_def)
  from collision_free_row(3)[OF cf inv r] k
  have d: "map_of (difficulties self) (Subject r @ '' Theory'') = Some (Difficult r)" by simp
  from nk iv d have "cons_added self (Subject r @ '' Theory'')
      = [LabC, SemesterC, ProfessorC] @ (if Difficult r then [DifficultyC] else [])"
    by (simp add: cons_added_def)
  with collision_free_list_of[OF cf built inv v] show ?thesis by simp
qed

lemma collision_free_lab_list:
  fixes data :: "subject_row list"
  assumes cf: "distinct (all_names data)" and built: "Exams_init data = Inr self"
    and inv: "rows_inv data [] self" and r: "r \<in> set data" and lab: "Lab r"
  shows "map_of (var_to_cons self) (Subject r @ '' Lab'') = Some [SlotC, LabC]"
proof -
  from inv have vs: "variables self = concat (map spec_row_variables data)"
    by (simp add: rows_inv_def)
  from lab have "Subject r @ '' Lab'' \<in> set (spec_row_variables r)"
    by (simp add: spec_row_variables_def)
  with r vs have v: "Subject r @ '' Lab'' \<in> set (variables self)" by auto
  from r lab have "r \<in> set (filter Lab data)" by simp
  then have ik: "Subject r @ '' Lab'' \<in> set (dict_keys (laboratories self))"
    unfolding collision_free_labs(1)[OF inv] by (rule imageI)
  then have "cons_added self (Subject r @ '' Lab'') = [LabC]"
    by (simp add: cons_added_def)
  with collision_free_list_of[OF cf built inv v] show ?thesis by simp
qed

text \<open>
  Claim C7. Whenever the constructor returns an object, the predicate list that it gives
  a variable contains slot-uniqueness; contains lab-ordering exactly when the variable
  is a key or a value of the lab relation; contains semester-uniqueness and
  professor-uniqueness exactly when it is not a Lab variable; and contains
  difficulty-separation exactly when it is not a Lab variable and its difficulty flag is
  true. On a table whose subject names and generated Theory and Lab names are pairwise
  distinct the constructor does return, its variables are those of the rows, and the
  lists are, row by row: for a subject without a lab, slot, semester and professor,
  followed by difficulty when the row is flagged difficult; for the Theory variable of a
  subject with a lab, slot, lab, semester and professor, followed by difficulty when the
  row is flagged difficult; for its Lab variable, slot and lab only.
\<close>

theorem var_to_cons_contents:
  fixes data :: "subject_row list"
  shows "(Exams_init data = Inr self \<and> v \<in> set (variables self) \<longrightarrow>
            (\<exists>cs. map_of (var_to_cons self) v = Some cs
               \<and> SlotC \<in> set cs
               \<and> (LabC \<in> set cs \<longleftrightarrow>
                    v \<in> set (dict_keys (laboratories self))
                    \<or> v \<in> set (dict_values (laboratories self)))
               \<and> (SemesterC \<in> set cs \<longleftrightarrow> v \<notin> set (dict_keys (laboratories self)))
               \<and> (ProfessorC \<in> set cs \<longleftrightarrow> v \<notin> set (dict_keys (laboratories self)))
               \<and> (DifficultyC \<in> set cs \<longleftrightarrow>
                    v \<notin> set (dict_keys (laboratories self))
                    \<and> map_of (difficulties self) v = Some True)))
         \<and> (distinct (all_names data) \<longrightarrow>
            (\<exists>built. Exams_init data = Inr built
               \<and> variables built =
                   concat (map (\<lambda>r. if Lab r then [Subject r @ '' Theory'', Subject r @ '' Lab'']
                                     else [Subject r]) data)
               \<and> (\<forall>r\<in>set data.
                     if Lab r then
                       map_of (var_to_cons built) (Subject r @ '' Theory'')
                         = Some ([SlotC, LabC, SemesterC, ProfessorC]
                                 @ (if Difficult r then [DifficultyC] else []))
                       \<and> map_of (var_to_cons built) (Subject r @ '' Lab'') = Some [SlotC, LabC]
                     else
                       map_of (var_to_cons built) (Subject r)
                         = Some ([SlotC, SemesterC, ProfessorC]
                                 @ (if Difficult r then [DifficultyC] else [])))))"
proof (intro conjI impI)
  assume a: "Exams_init data = Inr self \<and> v \<in> set (variables self)"
  then obtain cs where 1: "map_of (var_to_cons self) v = Some cs"
    and 2: "set cs = insert SlotC (set (cons_added self v))"
    using Exams_init_carried by blast
  from 2 have "SlotC \<in> set cs"
    and "LabC \<in> set cs \<longleftrightarrow>
                v \<in> set (dict_keys (laboratories self)) \<or> v \<in> set (dict_values (laboratories self))"
    and "SemesterC \<in> set cs \<longleftrightarrow> v \<notin> set (dict_keys (laboratories self))"
    and "ProfessorC \<in> set cs \<longleftrightarrow> v \<notin> set (dict_keys (laboratories self))"
    and "DifficultyC \<in> set cs \<longleftrightarrow>
                v \<notin> set (dict_keys (laboratories self)) \<and> map_of (difficulties self) v = Some True"
    by (simp_all add: cons_added_mem)
  with 1 show "\<exists>cs. map_of (var_to_cons self) v = Some cs
               \<and> SlotC \<in> set cs
               \<and> (LabC \<in> set cs \<longleftrightarrow>
                    v \<in> set (dict_keys (laboratories self))
                    \<or> v \<in> set (dict_values (laboratories self)))
               \<and> (SemesterC \<in> set cs \<longleftrightarrow> v \<notin> set (dict_keys (laboratories self)))
               \<and> (ProfessorC \<in> set cs \<longleftrightarrow> v \<notin> set (dict_keys (laboratories self)))
               \<and> (DifficultyC \<in> set cs \<longleftrightarrow>
                    v \<notin> set (dict_keys (laboratories self))
                    \<and> map_of (difficulties self) v = Some True)"
    by blast
next
  assume cf: "distinct (all_names data)"
  then obtain built where b: "Exams_init data = Inr built" and inv: "rows_inv data [] built"
    using Exams_init_collision_free by blast
  from inv have "variables built = concat (map spec_row_variables data)"
    by (simp add: rows_inv_def)
  also have "spec_row_variables = (\<lambda>r. if Lab r then [Subject r @ '' Theory'', Subject r @ '' Lab'']
                           else [Subject r])"
    by (rule ext) (simp add: spec_row_variables_def)
  finally have vs: "variables built =
         concat (map (\<lambda>r. if Lab r then [Subject r @ '' Theory'', Subject r @ '' Lab'']
                           else [Subject r]) data)" .
  have row: "if Lab r then
                       map_of (var_to_cons built) (Subject r @ '' Theory'')
                         = Some ([SlotC, LabC, SemesterC, ProfessorC]
                                 @ (if Difficult r then [DifficultyC] else []))
                       \<and> map_of (var_to_cons built) (Subject r @ '' Lab'') = Some [SlotC, LabC]
                     else
                       map_of (var_to_cons built) (Subject r)
                         = Some ([SlotC, SemesterC, ProfessorC]
                                 @ (if Difficult r then [DifficultyC] else []))"
    (is "?row r") if r: "r \<in> set data" for r
  proof (cases "Lab r")
    case True
    with collision_free_theory_list[OF cf b inv r True] collision_free_lab_list[OF cf b inv r True]
    show ?thesis by simp
  next
    case False
    with collision_free_plain_list[OF cf b inv r False] show ?thesis by simp
  qed
  have rows: "\<forall>r\<in>set data. ?row r" by (rule ballI) (rule row)
  from b vs rows show "\<exists>built. Exams_init data = Inr built
               \<and> variables built =
                   concat (map (\<lambda>r. if Lab r then [Subject r @ '' Theory'', Subject r @ '' Lab'']
                                     else [Subject r]) data)
               \<and> (\<forall>r\<in>set data.
                     if Lab r then
                       map_of (var_to_cons built) (Subject r @ '' Theory'')
                         = Some ([SlotC, LabC, SemesterC, ProfessorC]
                                 @ (if Difficult r then [DifficultyC] else []))
                       \<and> map_of (var_to_cons built) (Subject r @ '' Lab'') = Some [SlotC, LabC]
                     else
                       map_of (var_to_cons built) (Subject r)
                         = Some ([SlotC, SemesterC, ProfessorC]
                                 @ (if Difficult r then [DifficultyC] else [])))"
    by (intro exI[of _ built] conjI) assumption+
qed

theorem var_to_cons_contents_witness:
  "Exams_init scenario = Inr scenario_exams
   \<and> ''Algorithms Lab'' \<in> set (variables scenario_exams)
   \<and> distinct (all_names scenario)
   \<and> map_of (var_to_cons scenario_exams) ''Algorithms Theory''
       = Some [SlotC, LabC, SemesterC, ProfessorC, DifficultyC]
   \<and> map_of (var_to_cons scenario_exams) ''Algorithms Lab'' = Some [SlotC, LabC]
   \<and> map_of (var_to_cons scenario_exams) ''History'' = Some [SlotC, SemesterC, ProfessorC]
   \<and> ''Algorithms Lab'' \<in> set (dict_keys (laboratories scenario_exams))"
proof -
  have v: "''Algorithms Lab'' \<in> set (variables scenario_exams)"
    by (simp add: scenario_exams_def)
  note h = var_to_cons_contents[of scenario scenario_exams "''Algorithms Lab''"]
  note part2 = mp[OF conjunct2[OF h] scenario_collision_free]
  note part1 = mp[OF conjunct1[OF h] conjI[OF scenario_built v]]
  from part2 obtain built where b: "Exams_init scenario = Inr built"
    and rows: "\<forall>r\<in>set scenario.
                     if Lab r then
                       map_of (var_to_cons built) (Subject r @ '' Theory'')
                         = Some ([SlotC, LabC, SemesterC, ProfessorC]
                                 @ (if Difficult r then [DifficultyC] else []))
                       \<and> map_of (var_to_cons built) (Subject r @ '' Lab'') = Some [SlotC, LabC]
                     else
                       map_of (var_to_cons built) (Subject r)
                         = Some ([SlotC, SemesterC, ProfessorC]
                                 @ (if Difficult r then [DifficultyC] else []))"
    by (elim exE conjE)
  from b scenario_built have e: "built = scenario_exams" by simp
  from rows e have 1: "map_of (var_to_cons scenario_exams) ''Algorithms Theory''
       = Some [SlotC, LabC, SemesterC, ProfessorC, DifficultyC]"
    and 2: "map_of (var_to_cons scenario_exams) ''Algorithms Lab'' = Some [SlotC, LabC]"
    and 3: "map_of (var_to_cons scenario_exams) ''History'' = Some [SlotC, SemesterC, ProfessorC]"
    by (simp_all add: scenario_def)
  from part1 2
  have 4: "LabC \<in> set [SlotC, LabC] \<longleftrightarrow>
      ''Algorithms Lab'' \<in> set (dict_keys (laboratories scenario_exams))
      \<or> ''Algorithms Lab'' \<in> set (dict_values (laboratories scenario_exams))"
    and 5: "SemesterC \<in> set [SlotC, LabC] \<longleftrightarrow>
      ''Algorithms Lab'' \<notin> set (dict_keys (laboratories scenario_exams))"
    by auto
  from 5 have 6: "''Algorithms Lab'' \<in> set (dict_keys (laboratories scenario_exams))" by simp
  from scenario_built v scenario_collision_free 1 2 3 6 show ?thesis by simp
qed

end
